theory Spec2Isabelle
  imports Complex_Main "HOL-Library.AList"
begin

section \<open>JavaScript values\<close>

text \<open>
  Every JavaScript number of the simulation core is modelled as a real: the formulas are
  read as exact arithmetic, so rounding, infinities and NaN of IEEE doubles are outside the
  model; the one exception is the mining system, whose division by a zone's metallicity is
  modelled with its non-finite results (\<open>jsnum\<close> below). An object used as a dictionary and walked with \<open>for ... in\<close> or
  \<open>Object.values\<close> is an association list in insertion order; \<open>map_of\<close> reads a key
  and \<open>AList.update\<close> assigns one (an existing key keeps its place, a new key goes last,
  as in JavaScript).
\<close>

text \<open>\<open>x || d\<close> for a number \<open>x\<close> that may be undefined: \<open>undefined\<close> and \<open>0\<close> are falsy.\<close>

fun num_or :: "real option \<Rightarrow> real \<Rightarrow> real" where
  "num_or None d = d"
| "num_or (Some v) d = (if v = 0 then d else v)"

text \<open>\<open>x || y\<close> inside a longer chain \<open>x || y || d\<close>.\<close>

fun or_else :: "real option \<Rightarrow> real option \<Rightarrow> real option" where
  "or_else None y = y"
| "or_else (Some v) y = (if v = 0 then y else Some v)"

text \<open>\<open>x || {}\<close> for an object \<open>x\<close> that may be undefined (every object is truthy).\<close>

fun obj_or :: "('k \<times> 'v) list option \<Rightarrow> ('k \<times> 'v) list" where
  "obj_or None = []"
| "obj_or (Some al) = al"

text \<open>\<open>Math.floor\<close>, and the remainder operator \<open>%\<close>, whose quotient is truncated
  towards zero.\<close>

definition Math_floor :: "real \<Rightarrow> real" where
  "Math_floor x = of_int \<lfloor>x\<rfloor>"

definition js_trunc :: "real \<Rightarrow> int" where
  "js_trunc q = (if 0 \<le> q then \<lfloor>q\<rfloor> else \<lceil>q\<rceil>)"

definition js_rem :: "real \<Rightarrow> real \<Rightarrow> real" where
  "js_rem x y = x - y * of_int (js_trunc (x / y))"

text \<open>\<open>Object.values(zoneProbes).reduce((sum, count) => sum + (count || 0), 0)\<close>\<close>

definition totalProbesOf :: "(string \<times> real) list \<Rightarrow> real" where
  "totalProbesOf zoneProbes = foldl (\<lambda>sum count. sum + num_or (Some count) 0) 0 (map snd zoneProbes)"

text \<open>
  A number that need not be finite: a real, an infinity, NaN, or \<open>null\<close>, which is what
  \<open>JSON.stringify\<close> writes for an infinity or NaN. \<open>js_div\<close> is \<open>x / y\<close> for finite
  \<open>x\<close> and \<open>y\<close> (a zero divisor is the positive zero); the other operations are
  \<open>-x\<close>, \<open>x + y\<close>, \<open>x - y\<close>, \<open>Math.max(0, x)\<close> and \<open>x || 0\<close>, in which \<open>null\<close>
  counts as 0 and NaN and \<open>null\<close> are falsy, and the number a JSON round trip returns.
\<close>

datatype jsnum = Num real | PInf | NInf | NaN | Null

definition js_div :: "real \<Rightarrow> real \<Rightarrow> jsnum" where
  "js_div x y =
     (if y \<noteq> 0 then Num (x / y) else if 0 < x then PInf else if x < 0 then NInf else NaN)"

fun js_neg :: "jsnum \<Rightarrow> jsnum" where
  "js_neg (Num v) = Num (- v)"
| "js_neg PInf = NInf"
| "js_neg NInf = PInf"
| "js_neg NaN = NaN"
| "js_neg Null = Num 0"

fun js_plus :: "jsnum \<Rightarrow> jsnum \<Rightarrow> jsnum" where
  "js_plus NaN y = NaN"
| "js_plus x NaN = NaN"
| "js_plus PInf NInf = NaN"
| "js_plus NInf PInf = NaN"
| "js_plus PInf y = PInf"
| "js_plus x PInf = PInf"
| "js_plus NInf y = NInf"
| "js_plus x NInf = NInf"
| "js_plus Null Null = Num 0"
| "js_plus Null (Num w) = Num w"
| "js_plus (Num v) Null = Num v"
| "js_plus (Num v) (Num w) = Num (v + w)"

definition js_minus :: "jsnum \<Rightarrow> jsnum \<Rightarrow> jsnum" where
  "js_minus x y = js_plus x (js_neg y)"

fun Math_max0 :: "jsnum \<Rightarrow> jsnum" where
  "Math_max0 (Num v) = Num (max 0 v)"
| "Math_max0 PInf = PInf"
| "Math_max0 NInf = Num 0"
| "Math_max0 NaN = NaN"
| "Math_max0 Null = Num 0"

fun jsnum_or0 :: "jsnum \<Rightarrow> jsnum" where
  "jsnum_or0 (Num v) = Num v"
| "jsnum_or0 PInf = PInf"
| "jsnum_or0 NInf = NInf"
| "jsnum_or0 NaN = Num 0"
| "jsnum_or0 Null = Num 0"

fun JSON_number :: "jsnum \<Rightarrow> jsnum" where
  "JSON_number (Num v) = Num v"
| "JSON_number PInf = Null"
| "JSON_number NInf = Null"
| "JSON_number NaN = Null"
| "JSON_number Null = Null"

section \<open>Game state of engine\_v2 (core/game\_state.js)\<close>

record skills =
  propulsion :: real
  locomotion :: real
  robotic :: real
  production :: real
  recycling :: real
  energy_collection :: real
  dyson_construction :: real

record allocations =
  harvest :: "real option"
  construct :: "real option"
  replicate :: "real option"
  dyson :: "real option"
  recycle :: "real option"

record zone_state =
  metal_remaining :: real
  mass_remaining :: jsnum
  slag_produced :: jsnum
  depleted :: bool

record dyson_sphere_state =
  mass :: real
  target_mass :: real
  progress :: real

datatype transfer_status = Traveling | Paused | Completed

record transfer =
  transfer_id :: string
  from_zone :: string
  to_zone :: string
  probe_type :: "string option"
  probe_count :: "real option"
  departure_time :: real
  arrival_time :: real
  delta_v_cost :: real
  status :: transfer_status

record game_state =
  time :: real
  metal :: real
  slag :: jsnum
  probes_by_zone :: "(string \<times> (string \<times> real) list) list"
  probe_allocations_by_zone :: "(string \<times> allocations) list"
  structures_by_zone :: "(string \<times> (string \<times> real) list) list"
  zones :: "(string \<times> zone_state) list"
  dyson_sphere :: dyson_sphere_state
  active_transfers :: "transfer list"
  rates_dyson_construction :: real
  construction_progress_probes :: "(string \<times> real) list"

text \<open>Building definitions as the data loader supplies them (buildings.json): only the
  fields the calculators read.\<close>

record building =
  building_id :: string
  energy_production_per_second :: "real option"
  energy_consumption_per_second :: "real option"
  metal_production_per_day :: "real option"
  orbital_efficiency :: "(string \<times> real) list"

record buildings =
  energy_buildings :: "building list"
  mining_buildings :: "building list"
  factories_buildings :: "building list"
  transport_buildings :: "building list"
  recycling_buildings :: "building list"
  omni_buildings :: "building list"

section \<open>Energy calculator\<close>

subsection \<open>The engine\_v2 calculator (src/unnamed/part\_005)\<close>

text \<open>One pass of the inner loop of \<open>calculateEnergyProduction\<close> over a building list,
  for one zone.\<close>

definition energyProductionOf ::
  "string \<Rightarrow> (string \<times> real) list \<Rightarrow> skills \<Rightarrow> real \<Rightarrow> building list \<Rightarrow> real" where
  "energyProductionOf zoneId zoneStructures sk start bs =
     foldl (\<lambda>totalProduction b.
        let count = num_or (map_of zoneStructures (building_id b)) 0 in
        if count = 0 then totalProduction
        else
          let baseProduction = num_or (energy_production_per_second b) 0;
              zoneEfficiency = num_or (map_of (orbital_efficiency b) zoneId) 1;
              effectiveProduction = baseProduction * count * zoneEfficiency * energy_collection sk
          in totalProduction + effectiveProduction) start bs"

definition calculateEnergyProduction ::
  "(string \<times> (string \<times> real) list) list \<Rightarrow> buildings \<Rightarrow> skills \<Rightarrow> real" where
  "calculateEnergyProduction structuresByZone blds sk =
     foldl (\<lambda>totalProduction (zoneId, zoneStructures).
        energyProductionOf zoneId zoneStructures sk
          (energyProductionOf zoneId zoneStructures sk totalProduction (energy_buildings blds))
          (omni_buildings blds)) 0 structuresByZone"

definition BASE_PROBE_ENERGY :: real where
  "BASE_PROBE_ENERGY = 100000"

definition calculateProbeEnergyConsumption ::
  "(string \<times> (string \<times> real) list) list \<Rightarrow> (string \<times> allocations) list \<Rightarrow> skills \<Rightarrow> real" where
  "calculateProbeEnergyConsumption probesByZone probeAllocationsByZone sk =
     foldl (\<lambda>totalConsumption (zoneId, zoneProbes).
        let totalProbes = totalProbesOf zoneProbes in
        if totalProbes = 0 then totalConsumption
        else
          let al = map_of probeAllocationsByZone zoneId;
              harvestAllocation = num_or (Option.bind al harvest) 0;
              constructAllocation = num_or (Option.bind al construct) 0;
              replicateAllocation = num_or (Option.bind al replicate) 0;
              dysonAllocation = num_or (Option.bind al dyson) 0;
              activeProbes = totalProbes *
                (harvestAllocation + constructAllocation + replicateAllocation + dysonAllocation);
              propulsionBonus = propulsion sk - 1;
              consumptionPerProbe1 = BASE_PROBE_ENERGY / (1 + propulsionBonus * 0.5);
              productionBonus = production sk - 1;
              consumptionPerProbe = consumptionPerProbe1 / (1 + productionBonus * 0.3)
          in totalConsumption + activeProbes * consumptionPerProbe) 0 probesByZone"

definition calculateStructureEnergyConsumption ::
  "(string \<times> (string \<times> real) list) list \<Rightarrow> buildings \<Rightarrow> real" where
  "calculateStructureEnergyConsumption structuresByZone blds =
     (let allBuildings = energy_buildings blds @ mining_buildings blds @ factories_buildings blds
            @ transport_buildings blds @ recycling_buildings blds @ omni_buildings blds
      in foldl (\<lambda>totalConsumption (zoneId, zoneStructures).
           foldl (\<lambda>tc b.
              let count = num_or (map_of zoneStructures (building_id b)) 0 in
              if count = 0 then tc
              else tc + num_or (energy_consumption_per_second b) 0 * count)
             totalConsumption allBuildings) 0 structuresByZone)"

record energy_balance =
  eb_production :: real
  eb_consumption :: real
  eb_probeConsumption :: real
  eb_structureConsumption :: real
  eb_net :: real
  eb_throttle :: real

definition calculateEnergyBalance_v2 ::
  "game_state \<Rightarrow> buildings \<Rightarrow> skills \<Rightarrow> real \<Rightarrow> energy_balance" where
  "calculateEnergyBalance_v2 state blds sk dysonEnergyProduction =
     (let structuresByZone = structures_by_zone state;
          probesByZone = probes_by_zone state;
          probeAllocationsByZone = probe_allocations_by_zone state;
          production = calculateEnergyProduction structuresByZone blds sk + dysonEnergyProduction;
          probeConsumption = calculateProbeEnergyConsumption probesByZone probeAllocationsByZone sk;
          structureConsumption = calculateStructureEnergyConsumption structuresByZone blds;
          totalConsumption = probeConsumption + structureConsumption;
          netEnergy = production - totalConsumption;
          throttle = (if production > 0 then min 1 (production / max 1 totalConsumption) else 0)
      in \<lparr> eb_production = production, eb_consumption = totalConsumption,
           eb_probeConsumption = probeConsumption, eb_structureConsumption = structureConsumption,
           eb_net = netEnergy, eb_throttle = throttle \<rparr>)"

subsection \<open>The engine calculator (engine/calculations/energy\_calculator.js)\<close>

text \<open>
  \<open>calculateEnergyBalance\<close> of the engine directory adds a base production and a probe
  production, and computes the throttle by cases. Its four sub-calculators
  (\<open>calculateProbeEnergyProduction\<close>, \<open>calculateStructureEnergyProduction\<close>,
  \<open>calculateProbeEnergyConsumption\<close>, \<open>calculateStructureEnergyConsumption\<close>) only
  feed numbers into it; their results are the arguments here, so that what is proved holds
  for whatever they return.
\<close>

definition calculateEnergyBalance ::
  "real \<Rightarrow> real \<Rightarrow> real \<Rightarrow> real \<Rightarrow> real \<Rightarrow> real \<Rightarrow> energy_balance" where
  "calculateEnergyBalance baseProduction probeProduction structureProduction dysonEnergyProduction
       probeConsumption structureConsumption =
     (let production = baseProduction + probeProduction + structureProduction + dysonEnergyProduction;
          totalConsumption = probeConsumption + structureConsumption;
          netEnergy = production - totalConsumption;
          throttle = (if totalConsumption > 0
                      then (if production > 0 then min 1 (production / totalConsumption) else 0)
                      else 1)
      in \<lparr> eb_production = production, eb_consumption = totalConsumption,
           eb_probeConsumption = probeConsumption, eb_structureConsumption = structureConsumption,
           eb_net = netEnergy, eb_throttle = throttle \<rparr>)"

text \<open>The throttle as the specification words it, for a production \<open>p\<close> and a
  consumption \<open>c\<close>.\<close>

definition spec_throttle :: "real \<Rightarrow> real \<Rightarrow> real" where
  "spec_throttle p c = (if c = 0 then 1 else if p = 0 \<and> c > 0 then 0 else min 1 (p / c))"

text \<open>A new game of engine\_v2: \<open>createInitialGameState\<close> followed by
  \<open>initializeProbes\<close> with the default configuration, no structure built, and the
  probe of the starting zone set idle by an \<open>allocate_probes\<close> action with every
  fraction 0.\<close>

definition idle_state :: game_state where
  "idle_state = \<lparr> time = 0, metal = 1000, slag = Num 0,
      probes_by_zone = [(''earth'', [(''probe'', 1)])],
      probe_allocations_by_zone = [(''earth'', \<lparr> harvest = Some 0, construct = Some 0,
          replicate = Some 0, dyson = Some 0, recycle = None \<rparr>)],
      structures_by_zone = [],
      zones = [],
      dyson_sphere = \<lparr> mass = 0, target_mass = 5 * 10 ^ 24, progress = 0 \<rparr>,
      active_transfers = [],
      rates_dyson_construction = 0,
      construction_progress_probes = [] \<rparr>"

definition no_buildings :: buildings where
  "no_buildings = \<lparr> energy_buildings = [], mining_buildings = [], factories_buildings = [],
      transport_buildings = [], recycling_buildings = [], omni_buildings = [] \<rparr>"

definition unit_skills :: skills where
  "unit_skills = \<lparr> propulsion = 1, locomotion = 1, robotic = 1, production = 1,
      recycling = 0.75, energy_collection = 1, dyson_construction = 1 \<rparr>"

section \<open>Probe system (src/unnamed/part\_003)\<close>

definition PROBE_MASS :: real where
  "PROBE_MASS = 100"

text \<open>
  \<open>processReplication(state, zoneId, replicationRate, deltaTime)\<close> mutates the state it
  is given; the model returns the mutated state. The progress is kept under the probe type
  (\<open>construction_progress.probes['probe']\<close>), one number for all zones.
\<close>

definition processReplication :: "game_state \<Rightarrow> string \<Rightarrow> real \<Rightarrow> real \<Rightarrow> game_state" where
  "processReplication state zoneId replicationRate deltaTime =
     (let constructionProgress = construction_progress_probes state;
          probesByZone = probes_by_zone state;
          probeType = ''probe'';
          currentProgress = num_or (map_of constructionProgress probeType) 0;
          progressAdded = replicationRate * deltaTime;
          newProgress = currentProgress + progressAdded
      in if newProgress \<ge> PROBE_MASS then
           let probesToAdd = Math_floor (newProgress / PROBE_MASS);
               remainingProgress = js_rem newProgress PROBE_MASS;
               zoneProbes = obj_or (map_of probesByZone zoneId);
               count0 = num_or (map_of zoneProbes probeType) 0;
               probesByZone' = AList.update zoneId
                  (AList.update probeType (count0 + probesToAdd) zoneProbes) probesByZone
           in state\<lparr> construction_progress_probes :=
                         AList.update probeType remainingProgress constructionProgress,
                     probes_by_zone := probesByZone' \<rparr>
         else
           state\<lparr> construction_progress_probes :=
                     AList.update probeType newProgress constructionProgress,
                   probes_by_zone := probesByZone \<rparr>)"

text \<open>Readers used to state results: the stored progress, and the number of probes of a
  type in a zone, both with the \<open>|| 0\<close> defaults of the code.\<close>

definition probeProgress :: "game_state \<Rightarrow> real" where
  "probeProgress state = num_or (map_of (construction_progress_probes state) ''probe'') 0"

definition countIn :: "(string \<times> (string \<times> real) list) list \<Rightarrow> string \<Rightarrow> string \<Rightarrow> real" where
  "countIn probesByZone zoneId probeType =
     num_or (map_of (obj_or (map_of probesByZone zoneId)) probeType) 0"

definition probesIn :: "game_state \<Rightarrow> string \<Rightarrow> string \<Rightarrow> real" where
  "probesIn state zoneId probeType = countIn (probes_by_zone state) zoneId probeType"

subsection \<open>Example inputs\<close>

text \<open>A zone with 3 probes and 30 kg of stored progress, replicating at 50 kg/day for
  5 days: 280 kg of progress give 2 probes and leave 80 kg.\<close>

definition replication_example :: game_state where
  "replication_example = idle_state\<lparr> probes_by_zone := [(''earth'', [(''probe'', 3)])],
      construction_progress_probes := [(''probe'', 30)] \<rparr>"

section \<open>Composite skills calculator (engine/systems/transfer\_system.js, second part)\<close>

text \<open>
  The skills object of the engine directory is read by skill name, with
  \<open>skills.computer?.total\<close> as its one nested value. The economic rules come from the
  data loader: a table of coefficients per category and the alpha factors; each may be
  missing.
\<close>

record skill_set =
  skill :: "string \<Rightarrow> real option"
  computer_total :: "real option"

record economic_rules =
  skill_coefficients :: "(string \<times> (string \<times> real) list) list option"
  probe_performance :: "real option"
  structure_performance :: "real option"

text \<open>\<open>Math.pow\<close>, \<open>Math.log\<close> and \<open>Math.exp\<close>. \<open>Math.pow\<close> is only applied to
  a product of positive numbers, where it is the real power.\<close>

definition Math_pow :: "real \<Rightarrow> real \<Rightarrow> real" where
  "Math_pow x y = x powr y"

definition Math_log :: "real \<Rightarrow> real" where
  "Math_log x = ln x"

definition Math_exp :: "real \<Rightarrow> real" where
  "Math_exp x = exp x"

text \<open>The skill a coefficient name refers to (the \<open>switch\<close> of \<open>buildSkillValues\<close>).\<close>

definition skillValueOf :: "skill_set \<Rightarrow> string \<Rightarrow> real" where
  "skillValueOf sk skillName =
     (if skillName = ''robotic'' then
        num_or (or_else (skill sk ''robotic'') (skill sk ''manipulation'')) 1
      else if skillName = ''computer'' then num_or (computer_total sk) 1
      else if skillName = ''solar_pv'' then
        num_or (or_else (skill sk ''solar_pv'') (skill sk ''energy_collection'')) 1
      else num_or (skill sk skillName) 1)"

definition buildSkillValues :: "(string \<times> real) list option \<Rightarrow> skill_set \<Rightarrow> real list" where
  "buildSkillValues coefficients sk =
     (case coefficients of
        None \<Rightarrow> [1]
      | Some entries \<Rightarrow>
          let vals = map (\<lambda>(skillName, coefficient). coefficient * skillValueOf sk skillName)
                         (filter (\<lambda>(skillName, coefficient). skillName \<noteq> ''description'') entries)
          in if length vals > 0 then vals else [1])"

definition calculateTechTreeUpgradeFactor :: "real list option \<Rightarrow> real \<Rightarrow> real" where
  "calculateTechTreeUpgradeFactor skillValues alpha =
     (case skillValues of
        None \<Rightarrow> 1
      | Some vs \<Rightarrow>
          if length vs = 0 then 1
          else
            let validValues = filter (\<lambda>v. v > 0) vs in
            if length validValues = 0 then 1
            else
              let product = foldl (\<lambda>prod val. prod * val) 1 validValues;
                  geometricMean = Math_pow product (1 / real (length validValues));
                  logG = Math_log geometricMean;
                  factor = Math_exp (alpha * logG)
              in factor)"

text \<open>\<open>calculateUpgradeFactorFromCoefficients\<close> of the composite skills calculator; the
  alpha argument is \<open>None\<close> for JavaScript's \<open>null\<close> default.\<close>

definition calculateUpgradeFactorFromCoefficients ::
  "economic_rules option \<Rightarrow> string \<Rightarrow> skill_set \<Rightarrow> real option \<Rightarrow> real" where
  "calculateUpgradeFactorFromCoefficients economicRules category sk alpha =
     (case economicRules of
        None \<Rightarrow> 1
      | Some rules \<Rightarrow>
          (case skill_coefficients rules of
             None \<Rightarrow> 1
           | Some table \<Rightarrow>
               (case map_of table category of
                  None \<Rightarrow> 1
                | Some coefficients \<Rightarrow>
                    let skillValues = buildSkillValues (Some coefficients) sk;
                        alphaFactor = (case alpha of Some a \<Rightarrow> a
                                       | None \<Rightarrow> num_or (probe_performance rules) 0.75)
                    in calculateTechTreeUpgradeFactor (Some skillValues) alphaFactor)))"

definition calculateSalvageEfficiency :: "economic_rules option \<Rightarrow> skill_set \<Rightarrow> real" where
  "calculateSalvageEfficiency economicRules sk =
     (let baseRecyclingEfficiency = 0.75;
          upgradeFactor = calculateUpgradeFactorFromCoefficients economicRules ''salvage_efficiency'' sk None
      in min 1 (baseRecyclingEfficiency * upgradeFactor))"

text \<open>The formula in the specification's words: the geometric mean of a list, and the
  factor as the mean of the positive values raised to alpha.\<close>

definition geometric_mean :: "real list \<Rightarrow> real" where
  "geometric_mean vs = (prod_list vs) powr (1 / real (length vs))"

definition spec_upgrade_factor :: "real list \<Rightarrow> real \<Rightarrow> real" where
  "spec_upgrade_factor vs alpha =
     (if filter (\<lambda>v. v > 0) vs = [] then 1
      else geometric_mean (filter (\<lambda>v. v > 0) vs) powr alpha)"

subsection \<open>Example inputs\<close>

text \<open>An economic rule set with one table: salvage efficiency follows the recycling
  skill with coefficient 1, and the default alpha 0.75 applies.\<close>

definition salvage_rules :: economic_rules where
  "salvage_rules = \<lparr> skill_coefficients = Some [(''salvage_efficiency'', [(''recycling'', 1)])],
      probe_performance = None, structure_performance = None \<rparr>"

definition skills_recycling :: "real \<Rightarrow> skill_set" where
  "skills_recycling r = \<lparr> skill = [''recycling'' \<mapsto> r], computer_total = None \<rparr>"

section \<open>Production calculator (engine\_v2/calculations/production\_calculator.js)\<close>

text \<open>The zone descriptors held by \<open>OrbitalMechanics\<close> (engine/systems/transfer\_system.js,
  third part); \<open>orbitalZones\<close> is \<open>null\<close> until \<open>initialize\<close>.\<close>

record orbital_zone =
  zone_id :: string
  total_mass_kg :: "real option"
  metal_stores_kg :: "real option"
  mining_rate_multiplier :: "real option"
  is_dyson_zone :: "bool option"

definition getZone :: "orbital_zone list option \<Rightarrow> string \<Rightarrow> orbital_zone option" where
  "getZone orbitalZones zoneId =
     (case orbitalZones of None \<Rightarrow> None | Some zs \<Rightarrow> find (\<lambda>z. zone_id z = zoneId) zs)"

definition getZoneMetallicity :: "orbital_zone list option \<Rightarrow> string \<Rightarrow> real" where
  "getZoneMetallicity orbitalZones zoneId =
     (case getZone orbitalZones zoneId of
        None \<Rightarrow> 0
      | Some zone \<Rightarrow>
          let totalMass = num_or (total_mass_kg zone) 0;
              metalMass = num_or (metal_stores_kg zone) 0
          in if totalMass = 0 then 0 else metalMass / totalMass)"

definition getZoneMiningMultiplier :: "orbital_zone list option \<Rightarrow> string \<Rightarrow> real" where
  "getZoneMiningMultiplier orbitalZones zoneId =
     (case getZone orbitalZones zoneId of
        None \<Rightarrow> 1
      | Some zone \<Rightarrow> num_or (mining_rate_multiplier zone) 1)"

definition isDysonZone :: "orbital_zone list option \<Rightarrow> string \<Rightarrow> bool" where
  "isDysonZone orbitalZones zoneId =
     (case getZone orbitalZones zoneId of
        None \<Rightarrow> False
      | Some zone \<Rightarrow> (case is_dyson_zone zone of None \<Rightarrow> False | Some b \<Rightarrow> b))"

definition BASE_MINING_RATE :: real where
  "BASE_MINING_RATE = 100"

definition BASE_BUILDING_RATE :: real where
  "BASE_BUILDING_RATE = 100"

definition calculateMiningRate ::
  "orbital_zone list option \<Rightarrow> real \<Rightarrow> string \<Rightarrow> skills \<Rightarrow> real" where
  "calculateMiningRate orbitalZones probeCount zoneId sk =
     (if probeCount \<le> 0 then 0
      else BASE_MINING_RATE * probeCount * robotic sk * production sk
             * getZoneMiningMultiplier orbitalZones zoneId)"

definition calculateBuildingRate :: "real \<Rightarrow> skills \<Rightarrow> real" where
  "calculateBuildingRate probeCount sk =
     (if probeCount \<le> 0 then 0
      else BASE_BUILDING_RATE * probeCount * robotic sk * production sk)"

definition structureMiningOf ::
  "string \<Rightarrow> (string \<times> real) list \<Rightarrow> skills \<Rightarrow> real \<Rightarrow> building list \<Rightarrow> real" where
  "structureMiningOf zoneId zoneStructures sk start bs =
     foldl (\<lambda>totalRate b.
        let count = num_or (map_of zoneStructures (building_id b)) 0 in
        if count = 0 then totalRate
        else
          let baseRate = num_or (metal_production_per_day b) 0;
              zoneEfficiency = num_or (map_of (orbital_efficiency b) zoneId) 1;
              effectiveRate = baseRate * count * zoneEfficiency * production sk
          in totalRate + effectiveRate) start bs"

definition calculateStructureMiningRate ::
  "(string \<times> (string \<times> real) list) list \<Rightarrow> string \<Rightarrow> buildings \<Rightarrow> skills \<Rightarrow> real" where
  "calculateStructureMiningRate structuresByZone zoneId blds sk =
     (let zoneStructures = obj_or (map_of structuresByZone zoneId)
      in structureMiningOf zoneId zoneStructures sk
           (structureMiningOf zoneId zoneStructures sk 0 (mining_buildings blds))
           (omni_buildings blds))"

section \<open>Dyson system (engine\_v2/engine.js, second part)\<close>

definition METAL_TO_DYSON_RATIO :: real where
  "METAL_TO_DYSON_RATIO = 2"

definition processDysonConstruction ::
  "game_state \<Rightarrow> real \<Rightarrow> skills \<Rightarrow> real \<Rightarrow> game_state" where
  "processDysonConstruction state deltaTime sk energyThrottle =
     (let dysonZoneId = ''dyson_sphere'';
          probesByZone = probes_by_zone state;
          probeAllocationsByZone = probe_allocations_by_zone state;
          dysonSphere = dyson_sphere state;
          zoneProbes = obj_or (map_of probesByZone dysonZoneId);
          totalProbes = totalProbesOf zoneProbes
      in if totalProbes = 0 then state\<lparr> rates_dyson_construction := 0 \<rparr>
         else
           let dysonAllocation = num_or (Option.bind (map_of probeAllocationsByZone dysonZoneId) dyson) 0;
               dysonProbes = totalProbes * dysonAllocation;
               buildingRate = calculateBuildingRate dysonProbes sk;
               effectiveBuildingRate = buildingRate * dyson_construction sk;
               throttledRate = effectiveBuildingRate * energyThrottle;
               metalNeeded = throttledRate * METAL_TO_DYSON_RATIO * deltaTime;
               metalAvailable = num_or (Some (metal state)) 0;
               actualMetalConsumed = min metalNeeded metalAvailable;
               dysonMassAdded = actualMetalConsumed / METAL_TO_DYSON_RATIO;
               currentMass = num_or (Some (mass dysonSphere)) 0;
               targetMass = num_or (Some (target_mass dysonSphere)) (5 * 10 ^ 24);
               newMass = currentMass + dysonMassAdded
           in state\<lparr> dyson_sphere := dysonSphere\<lparr> mass := newMass,
                                                     progress := min 1 (newMass / targetMass) \<rparr>,
                     metal := metalAvailable - actualMetalConsumed,
                     rates_dyson_construction := throttledRate \<rparr>)"

text \<open>The target mass the code divides by (\<open>target_mass || 5e24\<close>), and the number of
  probes in the Dyson zone.\<close>

definition dysonTarget :: "game_state \<Rightarrow> real" where
  "dysonTarget state = num_or (Some (target_mass (dyson_sphere state))) (5 * 10 ^ 24)"

definition dysonZoneProbes :: "game_state \<Rightarrow> real" where
  "dysonZoneProbes state = totalProbesOf (obj_or (map_of (probes_by_zone state) ''dyson_sphere''))"

subsection \<open>Example inputs\<close>

text \<open>Ten probes in the Dyson zone, all on Dyson construction, 500 kg of metal in the
  pool and a small target of 100 kg that already holds 90 kg.\<close>

definition dyson_example :: game_state where
  "dyson_example = idle_state\<lparr> metal := 500,
      probes_by_zone := [(''dyson_sphere'', [(''probe'', 10)])],
      probe_allocations_by_zone := [(''dyson_sphere'', \<lparr> harvest = Some 0, construct = Some 0,
          replicate = Some 0, dyson = Some 1, recycle = None \<rparr>)],
      dyson_sphere := \<lparr> mass = 90, target_mass = 100, progress = 0.9 \<rparr> \<rparr>"

section \<open>Mining system (src/unnamed/part\_004, second part)\<close>

text \<open>
  The statements of \<open>processMining\<close>, first the body of its loop for one zone that is
  mined (not the Dyson zone, not depleted). It returns the zone as the loop leaves it, the
  metal extracted (\<open>actualExtraction\<close>) and the slag produced. The total mass is inferred
  by a division by the zone's metallicity, which \<open>getZoneMetallicity\<close> gives as 0 for an
  unknown zone or one without mass or metal: the quotient is then an infinity or NaN, and
  so are the slag and the masses derived from it, while the metal amounts stay finite.
\<close>

definition zoneMiningRate ::
  "orbital_zone list option \<Rightarrow> game_state \<Rightarrow> buildings \<Rightarrow> skills \<Rightarrow> string \<Rightarrow> real" where
  "zoneMiningRate orbitalZones state blds sk zoneId =
     (let zoneProbes = obj_or (map_of (probes_by_zone state) zoneId);
          totalProbes = totalProbesOf zoneProbes;
          harvestAllocation =
            num_or (Option.bind (map_of (probe_allocations_by_zone state) zoneId) harvest) 0;
          miningProbes = totalProbes * harvestAllocation;
          probeMiningRate = calculateMiningRate orbitalZones miningProbes zoneId sk;
          structureMiningRate =
            calculateStructureMiningRate (structures_by_zone state) zoneId blds sk;
          totalMiningRate = probeMiningRate + structureMiningRate
      in totalMiningRate)"

definition mineZone ::
  "orbital_zone list option \<Rightarrow> game_state \<Rightarrow> real \<Rightarrow> skills \<Rightarrow> buildings \<Rightarrow> real \<Rightarrow>
   string \<Rightarrow> zone_state \<Rightarrow> zone_state \<times> real \<times> jsnum" where
  "mineZone orbitalZones state deltaTime sk blds energyThrottle zoneId zone =
     (let totalMiningRate = zoneMiningRate orbitalZones state blds sk zoneId;
          effectiveMiningRate = totalMiningRate * energyThrottle;
          metalExtracted = effectiveMiningRate * deltaTime;
          metalRemaining = num_or (Some (metal_remaining zone)) 0;
          actualExtraction = min metalExtracted metalRemaining;
          metallicity = getZoneMetallicity orbitalZones zoneId;
          totalMassExtracted = js_div actualExtraction metallicity;
          slagProduced = js_minus totalMassExtracted (Num actualExtraction);
          metal_remaining' = max 0 (metalRemaining - actualExtraction);
          zone' = zone\<lparr> metal_remaining := metal_remaining',
            mass_remaining :=
              Math_max0 (js_minus (jsnum_or0 (mass_remaining zone)) totalMassExtracted),
            slag_produced := js_plus (jsnum_or0 (slag_produced zone)) slagProduced,
            depleted := (if metal_remaining' \<le> 0 then True else depleted zone) \<rparr>
      in (zone', actualExtraction, slagProduced))"

text \<open>The loop over the zones, carrying the global metal and slag pools; the Dyson zone
  and a depleted zone are skipped (\<open>continue\<close>), and every other zone is mined whatever
  the zones before it produced.\<close>

fun mineZones ::
  "orbital_zone list option \<Rightarrow> game_state \<Rightarrow> real \<Rightarrow> skills \<Rightarrow> buildings \<Rightarrow> real \<Rightarrow>
   (string \<times> zone_state) list \<Rightarrow> real \<Rightarrow> jsnum \<Rightarrow>
   (string \<times> zone_state) list \<times> real \<times> jsnum" where
  "mineZones orbitalZones state deltaTime sk blds energyThrottle [] m sl = ([], m, sl)"
| "mineZones orbitalZones state deltaTime sk blds energyThrottle ((zoneId, zone) # rest) m sl =
     (if isDysonZone orbitalZones zoneId \<or> depleted zone then
        (case mineZones orbitalZones state deltaTime sk blds energyThrottle rest m sl of
           (zs, m', sl') \<Rightarrow> ((zoneId, zone) # zs, m', sl'))
      else
        (case mineZone orbitalZones state deltaTime sk blds energyThrottle zoneId zone of
           (zone', actualExtraction, slagProduced) \<Rightarrow>
             (case mineZones orbitalZones state deltaTime sk blds energyThrottle rest
                     (num_or (Some m) 0 + actualExtraction)
                     (js_plus (jsnum_or0 sl) slagProduced) of
                (zs, m', sl') \<Rightarrow> ((zoneId, zone') # zs, m', sl'))))"

text \<open>\<open>JSON.parse(JSON.stringify(state))\<close>: the deep clone every system starts with; it
  turns a number that is not finite into \<open>null\<close>.\<close>

definition JSON_clone :: "game_state \<Rightarrow> game_state" where
  "JSON_clone state =
     state\<lparr> slag := JSON_number (slag state),
       zones := map (\<lambda>(zoneId, zone).
                  (zoneId, zone\<lparr> mass_remaining := JSON_number (mass_remaining zone),
                                slag_produced := JSON_number (slag_produced zone) \<rparr>))
                (zones state) \<rparr>"

definition processMining_statements ::
  "orbital_zone list option \<Rightarrow> game_state \<Rightarrow> real \<Rightarrow> skills \<Rightarrow> buildings \<Rightarrow> real \<Rightarrow>
   game_state" where
  "processMining_statements orbitalZones state deltaTime sk blds energyThrottle =
     (let newState = JSON_clone state in
      case mineZones orbitalZones newState deltaTime sk blds energyThrottle (zones newState)
             (metal newState) (slag newState) of
        (zs, m, sl) \<Rightarrow> newState\<lparr> zones := zs, metal := m, slag := sl \<rparr>)"

text \<open>
  The names \<open>processMining\<close> declares with \<open>const\<close> directly in its body, in source
  order (lines 140 to 154 of the file): \<open>profiler\<close> is declared at the top of the body
  and again before the loop. Declaring a name twice in one scope is an early error of
  JavaScript: the file is rejected when it is loaded, before any statement runs, with
  "SyntaxError: Identifier 'profiler' has already been declared", so the class is never
  defined and the method returns nothing for any argument.
\<close>

datatype js_error = SyntaxError_already_declared string

fun first_duplicate :: "string list \<Rightarrow> string option" where
  "first_duplicate [] = None"
| "first_duplicate (x # xs) = (if x \<in> set xs then Some x else first_duplicate xs)"

definition processMining_declarations :: "string list" where
  "processMining_declarations =
     [''profiler'', ''cloneStart'', ''newState'', ''zones'', ''probesByZone'',
      ''probeAllocationsByZone'', ''structuresByZone'', ''profiler'']"

definition processMining ::
  "orbital_zone list option \<Rightarrow> game_state \<Rightarrow> real \<Rightarrow> skills \<Rightarrow> buildings \<Rightarrow> real \<Rightarrow>
   js_error + game_state" where
  "processMining orbitalZones state deltaTime sk blds energyThrottle =
     (case first_duplicate processMining_declarations of
        Some name \<Rightarrow> Inl (SyntaxError_already_declared name)
      | None \<Rightarrow> Inr (processMining_statements orbitalZones state deltaTime sk blds energyThrottle))"

subsection \<open>Example inputs\<close>

text \<open>The scenario of the specification: one probe at \<open>earth\<close>, half of it harvesting,
  unit skills, a zone multiplier of 1; the zone holds 1000 kg of metal in 4000 kg of mass
  (metallicity 1/4).\<close>

definition earth_descriptor :: orbital_zone where
  "earth_descriptor = \<lparr> zone_id = ''earth'', total_mass_kg = Some 4000,
      metal_stores_kg = Some 1000, mining_rate_multiplier = Some 1, is_dyson_zone = Some False \<rparr>"

definition earth_zone :: zone_state where
  "earth_zone = \<lparr> metal_remaining = 1000, mass_remaining = Num 4000,
      slag_produced = Num 0, depleted = False \<rparr>"

definition mining_example :: game_state where
  "mining_example = idle_state\<lparr>
      probe_allocations_by_zone := [(''earth'', \<lparr> harvest = Some 0.5, construct = Some 0.3,
          replicate = Some 0.2, dyson = Some 0, recycle = None \<rparr>)],
      zones := [(''earth'', earth_zone)] \<rparr>"

definition earth_zone_mined :: zone_state where
  "earth_zone_mined = \<lparr> metal_remaining = 950, mass_remaining = Num 3800,
      slag_produced = Num 150, depleted = False \<rparr>"

text \<open>The same scenario with a second zone in front, \<open>vesta\<close>, which the orbital
  mechanics do not know (metallicity 0) and where one probe harvests full time.\<close>

definition vesta_zone :: zone_state where
  "vesta_zone = \<lparr> metal_remaining = 1000, mass_remaining = Num 4000,
      slag_produced = Num 0, depleted = False \<rparr>"

definition mining_example_vesta :: game_state where
  "mining_example_vesta = mining_example\<lparr>
      probes_by_zone := [(''vesta'', [(''probe'', 1)]), (''earth'', [(''probe'', 1)])],
      probe_allocations_by_zone := [
        (''vesta'', \<lparr> harvest = Some 1, construct = Some 0, replicate = Some 0,
            dyson = Some 0, recycle = None \<rparr>),
        (''earth'', \<lparr> harvest = Some 0.5, construct = Some 0.3, replicate = Some 0.2,
            dyson = Some 0, recycle = None \<rparr>)],
      zones := [(''vesta'', vesta_zone), (''earth'', earth_zone)] \<rparr>"

definition vesta_zone_mined :: zone_state where
  "vesta_zone_mined = \<lparr> metal_remaining = 900, mass_remaining = Num 0,
      slag_produced = PInf, depleted = False \<rparr>"

section \<open>Transfer system of engine\_v2 (engine\_v2/systems/transfer\_system.js)\<close>

text \<open>\<open>x || d\<close> for a string that may be undefined; the empty string is falsy.\<close>

fun str_or :: "string option \<Rightarrow> string \<Rightarrow> string" where
  "str_or None d = d"
| "str_or (Some v) d = (if v = [] then d else v)"

text \<open>
  \<open>completeTransfer(state, transfer)\<close> mutates the state in two blocks, named here
  \<open>removeFromSource\<close> and \<open>addToDestination\<close>. The source is debited only when its entry
  is truthy (the zone has an object, and the count is defined and not 0); the destination
  is then read from the probes as the debit left them.
\<close>

definition removeFromSource ::
  "(string \<times> (string \<times> real) list) list \<Rightarrow> string \<Rightarrow> string \<Rightarrow> real \<Rightarrow>
   (string \<times> (string \<times> real) list) list" where
  "removeFromSource probesByZone fromZoneId probeType probeCount =
     (case map_of probesByZone fromZoneId of
        None \<Rightarrow> probesByZone
      | Some fromProbes \<Rightarrow>
          if num_or (map_of fromProbes probeType) 0 \<noteq> 0
          then AList.update fromZoneId
                 (AList.update probeType
                    (max 0 (num_or (map_of fromProbes probeType) 0 - probeCount)) fromProbes)
                 probesByZone
          else probesByZone)"

definition addToDestination ::
  "(string \<times> (string \<times> real) list) list \<Rightarrow> string \<Rightarrow> string \<Rightarrow> real \<Rightarrow>
   (string \<times> (string \<times> real) list) list" where
  "addToDestination probesByZone toZoneId probeType probeCount =
     (let toProbes = obj_or (map_of probesByZone toZoneId);
          toCount = num_or (map_of toProbes probeType) 0
      in AList.update toZoneId (AList.update probeType (toCount + probeCount) toProbes)
           probesByZone)"

definition completeTransfer :: "game_state \<Rightarrow> transfer \<Rightarrow> game_state" where
  "completeTransfer state tr =
     (let probesByZone = probes_by_zone state;
          fromZoneId = from_zone tr;
          toZoneId = to_zone tr;
          probeType = str_or (probe_type tr) ''probe'';
          probeCount = num_or (probe_count tr) 0;
          probesByZone1 = removeFromSource probesByZone fromZoneId probeType probeCount;
          probesByZone2 = addToDestination probesByZone1 toZoneId probeType probeCount
      in state\<lparr> probes_by_zone := probesByZone2 \<rparr>)"

text \<open>
  The loop of \<open>processTransfers\<close>: a paused transfer is skipped, a travelling transfer
  whose arrival time has come is completed and its index noted, and the noted indices are
  spliced out afterwards. The model returns the transfers that stay, in order, and the
  state as the completions left it.
\<close>

fun processTransfersLoop :: "transfer list \<Rightarrow> game_state \<Rightarrow> transfer list \<times> game_state" where
  "processTransfersLoop [] state = ([], state)"
| "processTransfersLoop (tr # rest) state =
     (if status tr = Paused then
        (let (kept, state') = processTransfersLoop rest state in (tr # kept, state'))
      else if arrival_time tr \<le> time state \<and> status tr = Traveling then
        processTransfersLoop rest (completeTransfer state tr)
      else
        (let (kept, state') = processTransfersLoop rest state in (tr # kept, state')))"

definition processTransfers :: "game_state \<Rightarrow> real \<Rightarrow> game_state" where
  "processTransfers state deltaTime =
     (let (kept, state') = processTransfersLoop (active_transfers state) state
      in state'\<lparr> active_transfers := kept \<rparr>)"

text \<open>
  \<open>TransferSystem.createTransfer\<close> builds the transfer record. The delta-v and the
  transfer time come from \<open>OrbitalMechanics\<close> and the identifier from the clock and
  \<open>Math.random\<close>; the three are arguments of the model.
\<close>

definition createTransfer_v2 ::
  "game_state \<Rightarrow> string \<Rightarrow> string \<Rightarrow> string \<Rightarrow> string \<Rightarrow> real \<Rightarrow> real \<Rightarrow> real \<Rightarrow> transfer" where
  "createTransfer_v2 state newId fromZoneId toZoneId probeType probeCount deltaV transferTime =
     (let currentTime = num_or (Some (time state)) 0
      in \<lparr> transfer_id = newId, from_zone = fromZoneId, to_zone = toZoneId,
           probe_type = Some probeType, probe_count = Some probeCount,
           departure_time = currentTime, arrival_time = currentTime + transferTime,
           delta_v_cost = deltaV, status = Traveling \<rparr>)"

definition addTransfer :: "game_state \<Rightarrow> transfer \<Rightarrow> game_state" where
  "addTransfer state tr = state\<lparr> active_transfers := active_transfers state @ [tr] \<rparr>"

section \<open>Actions of the engine\_v2 engine (engine\_v2/engine.js)\<close>

datatype action_result = Success transfer | Failure string

record create_transfer_action =
  act_from_zone :: string
  act_to_zone :: string
  act_probe_type :: "string option"
  act_probe_count :: real

text \<open>\<open>GameEngine.createTransfer(actionData)\<close>: the engine's state after the action and
  the result returned. A missing \<open>probe_type\<close> defaults to \<open>'probe'\<close>.\<close>

definition GameEngine_createTransfer ::
  "game_state \<Rightarrow> string \<Rightarrow> real \<Rightarrow> real \<Rightarrow> create_transfer_action \<Rightarrow> game_state \<times> action_result" where
  "GameEngine_createTransfer state newId deltaV transferTime actionData =
     (let fromZ = act_from_zone actionData;
          toZ = act_to_zone actionData;
          probeType = (case act_probe_type actionData of None \<Rightarrow> ''probe'' | Some p \<Rightarrow> p);
          probeCount = act_probe_count actionData;
          probesByZone = probes_by_zone state;
          zoneProbes = obj_or (map_of probesByZone fromZ);
          available = num_or (map_of zoneProbes probeType) 0
      in if available < probeCount then (state, Failure ''Insufficient probes'')
         else
           let tr = createTransfer_v2 state newId fromZ toZ probeType probeCount deltaV transferTime
           in (addTransfer state tr, Success tr))"

text \<open>All probes of the state, over every zone and type.\<close>

definition sumProbes :: "(string \<times> (string \<times> real) list) list \<Rightarrow> real" where
  "sumProbes probesByZone =
     sum_list (map (\<lambda>(zoneId, zoneProbes). totalProbesOf zoneProbes) probesByZone)"

definition allProbes :: "game_state \<Rightarrow> real" where
  "allProbes state = sumProbes (probes_by_zone state)"

text \<open>A transfer that \<open>processTransfers\<close> completes at the state's time.\<close>

definition arrived :: "game_state \<Rightarrow> transfer \<Rightarrow> bool" where
  "arrived state tr = (status tr = Traveling \<and> arrival_time tr \<le> time state)"

subsection \<open>Example inputs\<close>

text \<open>Five probes at \<open>earth\<close>; a request to send three of them to \<open>mars\<close>, and one to
  send seven.\<close>

definition transfer_example :: game_state where
  "transfer_example = idle_state\<lparr> probes_by_zone := [(''earth'', [(''probe'', 5)])] \<rparr>"

definition send_three :: create_transfer_action where
  "send_three = \<lparr> act_from_zone = ''earth'', act_to_zone = ''mars'', act_probe_type = None,
      act_probe_count = 3 \<rparr>"

definition send_seven :: create_transfer_action where
  "send_seven = \<lparr> act_from_zone = ''earth'', act_to_zone = ''mars'', act_probe_type = None,
      act_probe_count = 7 \<rparr>"

definition three_to_mars :: transfer where
  "three_to_mars = \<lparr> transfer_id = ''t1'', from_zone = ''earth'', to_zone = ''mars'',
      probe_type = Some ''probe'', probe_count = Some 3, departure_time = 0, arrival_time = 10,
      delta_v_cost = 1, status = Traveling \<rparr>"

text \<open>The state ten days after the request for three was accepted, and a state whose
  source holds two probes when a transfer of three arrives.\<close>

definition three_due :: game_state where
  "three_due = (addTransfer transfer_example three_to_mars)\<lparr> time := 10 \<rparr>"

definition short_source :: game_state where
  "short_source = idle_state\<lparr>
      probes_by_zone := [(''earth'', [(''probe'', 2)]), (''mars'', [(''probe'', 3)])] \<rparr>"

section \<open>Transfer system of the engine directory (engine/systems/transfer\_system.js)\<close>

text \<open>
  The state this transfer system works on keeps, per zone, the stored metal and the mass of
  the probes. A transfer has the fields of an engine\_v2 transfer and more: the resource
  kind, the mode, the rates and, for a continuous transfer, the queue of batches in
  flight.
\<close>

record batch =
  batch_count :: "real option"
  mass_kg :: "real option"
  batch_departure_time :: real
  batch_arrival_time :: real
  batch_resource_type :: string

record transfer_v1 = transfer +
  resource_type :: "string option"
  transfer_type :: string
  metal_kg :: "real option"
  rate_percentage :: "real option"
  metal_rate_percentage :: "real option"
  paused :: bool
  in_transit :: "batch list option"
  transfer_time :: real
  last_send_time :: "real option"

record zone_v1 =
  stored_metal :: real
  probe_mass :: real
  structure_mass :: real
  slag_mass :: real
  zone_mass_remaining :: real
  zone_depleted :: bool

text \<open>\<open>st_derived_probe_production_rate\<close> is \<open>state.derived.zones[zoneId].probe_production_rate\<close>
  where defined, \<open>st_probe_replicate\<close> is \<open>state.tech_upgrade_factors.probe_replicate\<close>, and
  \<open>st_building_performance\<close> is \<open>state.upgrade_factors.structure.building.performance\<close>.\<close>

record engine_state =
  st_time :: real
  st_probes_by_zone :: "(string \<times> (string \<times> real) list) list"
  st_probe_allocations_by_zone :: "(string \<times> allocations) list"
  st_structures_by_zone :: "(string \<times> (string \<times> real) list) list"
  st_zones :: "(string \<times> zone_v1) list"
  st_skills :: skill_set
  st_active_transfers :: "transfer_v1 list"
  st_derived_probe_production_rate :: "(string \<times> real) list"
  st_probe_replicate :: "real option"
  st_building_performance :: "real option"

text \<open>
  The fields of a \<open>TransferSystem\<close> object that its methods read or write: the economic
  rules and the map of accumulators, one per continuous transfer, which the constructor
  creates empty. (\<open>lastRateUpdateTime\<close> and \<open>massDriverUsage\<close> are set by the constructor
  and never used.) The orbital mechanics object is passed separately: the zone
  descriptors, and the delta-v and transfer time it computes, taken as functions.
\<close>

record transfer_system =
  economicRules :: "economic_rules option"
  continuousAccumulators :: "string \<Rightarrow> real option"

record orbital_mechanics =
  orbitalZones :: "orbital_zone list option"
  calculateDeltaV :: "string \<Rightarrow> string \<Rightarrow> skill_set \<Rightarrow> real"
  calculateTransferTime :: "string \<Rightarrow> string \<Rightarrow> skill_set \<Rightarrow> real"

definition new_TransferSystem :: transfer_system where
  "new_TransferSystem = \<lparr> economicRules = None, continuousAccumulators = Map.empty \<rparr>"


text \<open>\<open>calculateUpgradeFactorFromCoefficients\<close> of the transfer system: as in the composite
  skills calculator, with the structure alpha factor and 0.8 as the default.\<close>

definition calculateUpgradeFactorFromCoefficients_ts ::
  "transfer_system \<Rightarrow> string \<Rightarrow> skill_set \<Rightarrow> real option \<Rightarrow> real" where
  "calculateUpgradeFactorFromCoefficients_ts ts category sk alpha =
     (case economicRules ts of
        None \<Rightarrow> 1
      | Some rules \<Rightarrow>
          (case skill_coefficients rules of
             None \<Rightarrow> 1
           | Some table \<Rightarrow>
               (case map_of table category of
                  None \<Rightarrow> 1
                | Some coefficients \<Rightarrow>
                    let skillValues = buildSkillValues (Some coefficients) sk;
                        alphaFactor = (case alpha of Some a \<Rightarrow> a
                                       | None \<Rightarrow> num_or (structure_performance rules) 0.8)
                    in calculateTechTreeUpgradeFactor (Some skillValues) alphaFactor)))"

definition massDriverCountOf :: "engine_state \<Rightarrow> string \<Rightarrow> real" where
  "massDriverCountOf state zoneId =
     num_or (map_of (obj_or (map_of (st_structures_by_zone state) zoneId)) ''mass_driver'') 0"

definition calculateMassDriverSpeedMultiplier :: "real \<Rightarrow> real" where
  "calculateMassDriverSpeedMultiplier massDriverCount = (if massDriverCount = 0 then 1 else 0.5)"

definition calculateMetalTransferCapacity ::
  "transfer_system \<Rightarrow> engine_state \<Rightarrow> string \<Rightarrow> real option \<Rightarrow> real" where
  "calculateMetalTransferCapacity ts state zoneId metal_launch_capacity =
     (let massDriverCount = massDriverCountOf state zoneId
      in if massDriverCount = 0 then 0
         else
           let baseCapacityPerDriver = num_or metal_launch_capacity (100 * 10 ^ 12);
               totalCapacity = baseCapacityPerDriver * massDriverCount;
               transportUpgrade = num_or (st_building_performance state) 1;
               capacityUpgradeFactor =
                 calculateUpgradeFactorFromCoefficients_ts ts ''mass_driver_capacity''
                   (st_skills state) None
           in totalCapacity * transportUpgrade * capacityUpgradeFactor)"

definition storedMetalOf :: "engine_state \<Rightarrow> string \<Rightarrow> real" where
  "storedMetalOf state zoneId =
     (case map_of (st_zones state) zoneId of None \<Rightarrow> 0 | Some z \<Rightarrow> num_or (Some (stored_metal z)) 0)"

text \<open>\<open>excludeTransferId\<close> excludes a transfer only when it is a non-empty string.\<close>

definition calculateUsedMetalCapacity ::
  "transfer_v1 list \<Rightarrow> engine_state \<Rightarrow> string \<Rightarrow> string option \<Rightarrow> real" where
  "calculateUsedMetalCapacity activeTransfers state zoneId excludeTransferId =
     (let storedMetal = storedMetalOf state zoneId
      in foldl (\<lambda>totalRate tr.
           if str_or excludeTransferId [] \<noteq> [] \<and> Some (transfer_id tr) = excludeTransferId
           then totalRate
           else if from_zone tr \<noteq> zoneId then totalRate
           else if resource_type tr \<noteq> Some ''metal'' then totalRate
           else if paused tr then totalRate
           else if transfer_type tr = ''continuous''
           then totalRate + storedMetal * (num_or (metal_rate_percentage tr) 0 / 100)
           else totalRate) 0 activeTransfers)"

definition getAvailableMetalCapacity ::
  "transfer_system \<Rightarrow> engine_state \<Rightarrow> string \<Rightarrow> real option \<Rightarrow> string option \<Rightarrow> real" where
  "getAvailableMetalCapacity ts state zoneId metal_launch_capacity excludeTransferId =
     (let totalCapacity = calculateMetalTransferCapacity ts state zoneId metal_launch_capacity;
          usedCapacity = calculateUsedMetalCapacity (st_active_transfers state) state zoneId
                           excludeTransferId
      in max 0 (totalCapacity - usedCapacity))"

definition hasMassDriver :: "engine_state \<Rightarrow> string \<Rightarrow> bool" where
  "hasMassDriver state zoneId = (massDriverCountOf state zoneId > 0)"

datatype transfer_error =
    ZoneNotFound string
  | MassDriverRequired
  | NoMassDriverCapacity
  | InvalidTransferTime real
  | InvalidTransferTimeAfterMultiplier real
  | InvalidArrivalTime

record create_result =
  cr_success :: bool
  cr_transfer :: "transfer_v1 option"
  cr_error :: "transfer_error option"

definition failed :: "transfer_error \<Rightarrow> create_result" where
  "failed e = \<lparr> cr_success = False, cr_transfer = None, cr_error = Some e \<rparr>"

definition isDysonDestination :: "string \<Rightarrow> bool" where
  "isDysonDestination toZoneId = (toZoneId = ''dyson_sphere'' \<or> toZoneId = ''dyson'')"

text \<open>
  \<open>createTransfer\<close>. The model returns the result object, the state and the transfer
  system as the call leaves them: the state is only read, and the one write is the
  accumulator of a new continuous transfer. The identifier that \<open>generateTransferId\<close>
  draws from the clock and \<open>Math.random\<close> is an argument; \<open>skillsArg\<close> is \<open>None\<close> when
  the caller passes no skills object. The tests \<open>!transferTime\<close> and
  \<open>transferTime <= 0\<close> together reject every time that is not positive.
\<close>

definition createTransfer ::
  "transfer_system \<Rightarrow> orbital_mechanics \<Rightarrow> string \<Rightarrow> engine_state \<Rightarrow> string \<Rightarrow> string \<Rightarrow> string \<Rightarrow>
   string \<Rightarrow> real \<Rightarrow> skill_set option \<Rightarrow> string \<Rightarrow> real \<Rightarrow>
   create_result \<times> engine_state \<times> transfer_system" where
  "createTransfer ts om newId state fromZoneId toZoneId resourceType probeType resourceCount
       skillsArg ttype ratePercentage0 =
     (let currentTime = num_or (Some (st_time state)) 0;
          fromZone = getZone (orbitalZones om) fromZoneId;
          toZone = getZone (orbitalZones om) toZoneId
      in if fromZone = None \<or> toZone = None then
           (failed (ZoneNotFound (if fromZone = None then fromZoneId else toZoneId)), state, ts)
         else if resourceType = ''metal'' \<and> \<not> hasMassDriver state fromZoneId then
           (failed MassDriverRequired, state, ts)
         else if resourceType = ''metal'' \<and> ttype = ''continuous'' \<and> ratePercentage0 > 0
                 \<and> getAvailableMetalCapacity ts state fromZoneId None None \<le> 0 then
           (failed NoMassDriverCapacity, state, ts)
         else
           let ratePercentage =
                 (if resourceType = ''metal'' \<and> ttype = ''continuous'' \<and> ratePercentage0 > 0
                     \<and> ratePercentage0 > getAvailableMetalCapacity ts state fromZoneId None None
                  then getAvailableMetalCapacity ts state fromZoneId None None
                  else ratePercentage0);
               currentSkills = (case skillsArg of Some sk \<Rightarrow> sk | None \<Rightarrow> st_skills state);
               deltaV = calculateDeltaV om fromZoneId toZoneId currentSkills;
               transferTime0 = calculateTransferTime om fromZoneId toZoneId currentSkills
           in if transferTime0 \<le> 0 then (failed (InvalidTransferTime transferTime0), state, ts)
              else
                let massDriverCount = massDriverCountOf state fromZoneId;
                    transferTime1 =
                      (if massDriverCount > 0
                       then transferTime0 * calculateMassDriverSpeedMultiplier massDriverCount
                       else transferTime0)
                in if massDriverCount > 0 \<and> transferTime1 \<le> 0 then
                     (failed (InvalidTransferTimeAfterMultiplier transferTime1), state, ts)
                   else
                     let transferTime =
                           (if isDysonDestination toZoneId \<and> resourceType = ''metal''
                            then transferTime1 * 3 else transferTime1);
                         oneTime = (ttype = ''one-time'');
                         tr = \<lparr> transfer_id = newId, from_zone = fromZoneId, to_zone = toZoneId,
                                probe_type = (if resourceType = ''probe'' then Some probeType else None),
                                probe_count = (if oneTime \<and> resourceType = ''probe''
                                               then Some resourceCount else None),
                                departure_time = currentTime,
                                arrival_time = currentTime + transferTime,
                                delta_v_cost = deltaV, status = Traveling,
                                resource_type = Some resourceType, transfer_type = ttype,
                                metal_kg = (if oneTime \<and> resourceType = ''metal''
                                            then Some resourceCount else None),
                                rate_percentage = (if \<not> oneTime \<and> resourceType \<noteq> ''metal''
                                                   then Some ratePercentage else None),
                                metal_rate_percentage = (if \<not> oneTime \<and> resourceType = ''metal''
                                                         then Some ratePercentage else None),
                                paused = False,
                                in_transit = (if oneTime then None else Some []),
                                transfer_time = transferTime,
                                last_send_time = (if oneTime then None else Some currentTime) \<rparr>;
                         ts' = (if oneTime then ts
                                else ts\<lparr> continuousAccumulators :=
                                            (continuousAccumulators ts)(newId \<mapsto> 0) \<rparr>)
                     in if oneTime \<and> transferTime \<le> 0 then
                          (failed (InvalidTransferTime transferTime), state, ts)
                        else if arrival_time tr = 0 then (failed InvalidArrivalTime, state, ts')
                        else (\<lparr> cr_success = True, cr_transfer = Some tr, cr_error = None \<rparr>,
                              state, ts'))"

subsection \<open>Example inputs\<close>

text \<open>Two zones known to the orbital mechanics, a journey of 100 days between them, and
  a state with 5000 kg of stored metal at \<open>earth\<close> and no structure anywhere.\<close>

definition mars_descriptor :: orbital_zone where
  "mars_descriptor = \<lparr> zone_id = ''mars'', total_mass_kg = Some 4000,
      metal_stores_kg = Some 1000, mining_rate_multiplier = Some 1, is_dyson_zone = Some False \<rparr>"

definition two_zones :: orbital_mechanics where
  "two_zones = \<lparr> orbitalZones = Some [earth_descriptor, mars_descriptor],
      calculateDeltaV = (\<lambda>a b sk. 1), calculateTransferTime = (\<lambda>a b sk. 100) \<rparr>"

definition no_skills :: skill_set where
  "no_skills = \<lparr> skill = Map.empty, computer_total = None \<rparr>"

definition no_drivers :: engine_state where
  "no_drivers = \<lparr> st_time = 0,
      st_probes_by_zone = [(''earth'', [(''probe'', 5)])],
      st_probe_allocations_by_zone = [],
      st_structures_by_zone = [],
      st_zones = [(''earth'', \<lparr> stored_metal = 5000, probe_mass = 500, structure_mass = 0,
          slag_mass = 0, zone_mass_remaining = 0, zone_depleted = False \<rparr>)],
      st_skills = no_skills,
      st_active_transfers = [],
      st_derived_probe_production_rate = [],
      st_probe_replicate = None,
      st_building_performance = None \<rparr>"

subsection \<open>Processing transfers\<close>















subsection \<open>Changing and deleting transfers\<close>






subsection \<open>The engine around the transfer system\<close>













subsection \<open>The worker (game/engine.worker.js)\<close>







text \<open>Two transfer systems that send the same: the same economic rules, and for every
  transfer the same accumulated amount, an identifier without an entry counting as 0.\<close>

definition same_sends :: "transfer_system \<Rightarrow> transfer_system \<Rightarrow> bool" where
  "same_sends ts1 ts2 =
     (economicRules ts1 = economicRules ts2 \<and>
      (\<forall>transferId. num_or (continuousAccumulators ts1 transferId) 0
                     = num_or (continuousAccumulators ts2 transferId) 0))"

subsection \<open>Example inputs\<close>





section \<open>Energy throttle: results\<close>

lemma calculateEnergyBalance_throttle_spec:
  assumes "0 \<le> bp + pp + sp + dy" and "0 \<le> pc + sc"
  shows "eb_throttle (calculateEnergyBalance bp pp sp dy pc sc)
           = spec_throttle (eb_production (calculateEnergyBalance bp pp sp dy pc sc))
                           (eb_consumption (calculateEnergyBalance bp pp sp dy pc sc))"
  using assms by (auto simp: calculateEnergyBalance_def spec_throttle_def Let_def)

lemma calculateEnergyBalance_throttle_bounds:
  "0 \<le> eb_throttle (calculateEnergyBalance bp pp sp dy pc sc) \<and>
   eb_throttle (calculateEnergyBalance bp pp sp dy pc sc) \<le> 1"
  by (auto simp: calculateEnergyBalance_def Let_def min_def)

lemma calculateEnergyBalance_v2_throttle_bounds:
  "0 \<le> eb_throttle (calculateEnergyBalance_v2 s b k dy) \<and>
   eb_throttle (calculateEnergyBalance_v2 s b k dy) \<le> 1"
  by (auto simp: calculateEnergyBalance_v2_def Let_def min_def)

text \<open>
  C1. The claim: the throttle is 1.0 whenever the total consumption is 0. The engine
  calculator does that (lemma \<open>calculateEnergyBalance_throttle_spec\<close>). The engine\_v2
  calculator does not: in a new game with no energy structure and no Dyson mass the
  production is 0, with every probe idle the consumption is 0, and the throttle it returns
  is 0, where the specification's formula gives 1.
\<close>

theorem C1_v2_throttle_zero_at_zero_consumption:
  "eb_consumption (calculateEnergyBalance_v2 idle_state no_buildings unit_skills 0) = 0 \<and>
   eb_production (calculateEnergyBalance_v2 idle_state no_buildings unit_skills 0) = 0 \<and>
   eb_throttle (calculateEnergyBalance_v2 idle_state no_buildings unit_skills 0) = 0 \<and>
   spec_throttle (eb_production (calculateEnergyBalance_v2 idle_state no_buildings unit_skills 0))
                 (eb_consumption (calculateEnergyBalance_v2 idle_state no_buildings unit_skills 0)) = 1"
  by (simp add: calculateEnergyBalance_v2_def calculateEnergyProduction_def
      calculateProbeEnergyConsumption_def calculateStructureEnergyConsumption_def
      totalProbesOf_def idle_state_def no_buildings_def unit_skills_def spec_throttle_def
      BASE_PROBE_ENERGY_def Let_def)

section \<open>Probe replication: results\<close>

lemma js_rem_pos:
  assumes "0 \<le> x" and "0 < y"
  shows "js_rem x y = x - y * of_int \<lfloor>x / y\<rfloor>"
  using assms by (simp add: js_rem_def js_trunc_def)

lemma js_rem_range:
  assumes "0 \<le> x" and "0 < y"
  shows "0 \<le> js_rem x y \<and> js_rem x y < y"
proof -
  have f: "of_int \<lfloor>x / y\<rfloor> \<le> x / y" "x / y < of_int \<lfloor>x / y\<rfloor> + 1"
    by linarith+
  have "y * of_int \<lfloor>x / y\<rfloor> \<le> y * (x / y)"
    using f(1) assms(2) by (intro mult_left_mono) simp_all
  then have "y * of_int \<lfloor>x / y\<rfloor> \<le> x"
    using assms(2) by simp
  moreover have "y * (x / y) < y * (of_int \<lfloor>x / y\<rfloor> + 1)"
    using f(2) assms(2) by (intro mult_strict_left_mono) simp_all
  then have "x < y * (of_int \<lfloor>x / y\<rfloor> + 1)"
    using assms(2) by simp
  ultimately show ?thesis
    using assms by (simp add: js_rem_pos algebra_simps)
qed

lemma probeProgress_processReplication:
  "probeProgress (processReplication s z r dt) =
     (if probeProgress s + r * dt \<ge> PROBE_MASS
      then js_rem (probeProgress s + r * dt) PROBE_MASS
      else probeProgress s + r * dt)"
  by (simp add: processReplication_def probeProgress_def Let_def update_conv')

lemma probesIn_processReplication:
  "probesIn (processReplication s z r dt) z ''probe'' =
     (if probeProgress s + r * dt \<ge> PROBE_MASS
      then probesIn s z ''probe'' + of_int \<lfloor>(probeProgress s + r * dt) / PROBE_MASS\<rfloor>
      else probesIn s z ''probe'')"
  by (simp add: processReplication_def probeProgress_def probesIn_def countIn_def Let_def update_conv'
      Math_floor_def)

text \<open>
  C6. Replication adds \<open>replicationRate * deltaTime\<close> kg to the stored progress. When
  the sum reaches the probe mass (100 kg) the probe count of the zone grows by the integer
  quotient \<open>floor(progress / 100)\<close> and the remainder (in \<open>[0, 100)\<close>) is stored;
  otherwise the count is unchanged and the sum is stored. In both cases
  old progress + added progress = new progress + 100 * (probes added), and a probe count
  that was a non-negative integer stays one.
\<close>

theorem C6_replication_conserves_progress:
  fixes s :: game_state and z :: string and r dt :: real
  shows "(probesIn (processReplication s z r dt) z ''probe'' - probesIn s z ''probe''
            = (if probeProgress s + r * dt \<ge> 100
               then of_int \<lfloor>(probeProgress s + r * dt) / 100\<rfloor> else 0))
       \<and> (probeProgress s + r * dt
            = probeProgress (processReplication s z r dt)
              + 100 * (probesIn (processReplication s z r dt) z ''probe'' - probesIn s z ''probe''))
       \<and> (probeProgress s + r * dt \<ge> 100 \<longrightarrow>
            0 \<le> probeProgress (processReplication s z r dt) \<and>
            probeProgress (processReplication s z r dt) < 100)
       \<and> (probeProgress s + r * dt < 100 \<longrightarrow>
            probeProgress (processReplication s z r dt) = probeProgress s + r * dt)
       \<and> (probesIn s z ''probe'' \<in> \<int> \<and> 0 \<le> probesIn s z ''probe'' \<longrightarrow>
            probesIn (processReplication s z r dt) z ''probe'' \<in> \<int> \<and>
            0 \<le> probesIn (processReplication s z r dt) z ''probe'')"
proof -
  define s' where "s' = processReplication s z r dt"
  define t where "t = probeProgress s + r * dt"
  define added where "added = probesIn s' z ''probe'' - probesIn s z ''probe''"
  have pc: "probesIn s' z ''probe'' =
      (if t \<ge> 100 then probesIn s z ''probe'' + of_int \<lfloor>t / 100\<rfloor>
       else probesIn s z ''probe'')"
    unfolding s'_def t_def using probesIn_processReplication [of s z r dt]
    by (simp add: PROBE_MASS_def)
  have pp: "probeProgress s' = (if t \<ge> 100 then js_rem t 100 else t)"
    unfolding s'_def t_def using probeProgress_processReplication [of s z r dt]
    by (simp add: PROBE_MASS_def)
  have a: "added = (if t \<ge> 100 then of_int \<lfloor>t / 100\<rfloor> else 0)"
    unfolding added_def by (simp add: pc)
  have b: "t = probeProgress s' + 100 * added"
  proof (cases "t \<ge> 100")
    case True
    then have "js_rem t 100 = t - 100 * of_int \<lfloor>t / 100\<rfloor>"
      by (simp add: js_rem_pos)
    with True a pp show ?thesis by simp
  next
    case False
    with a pp show ?thesis by simp
  qed
  have c: "t \<ge> 100 \<longrightarrow> 0 \<le> probeProgress s' \<and> probeProgress s' < 100"
    using js_rem_range [of t 100] by (simp add: pp)
  have d: "t < 100 \<longrightarrow> probeProgress s' = t"
    by (simp add: pp)
  have e: "probesIn s z ''probe'' \<in> \<int> \<and> 0 \<le> probesIn s z ''probe''
         \<longrightarrow> probesIn s' z ''probe'' \<in> \<int> \<and> 0 \<le> probesIn s' z ''probe''"
  proof (cases "t \<ge> 100")
    case True
    then have "0 \<le> t / 100" by simp
    then have "0 \<le> \<lfloor>t / 100\<rfloor>" by simp
    then have "(0::real) \<le> of_int \<lfloor>t / 100\<rfloor>" by simp
    with True show ?thesis by (auto simp: pc)
  next
    case False
    then show ?thesis by (simp add: pc)
  qed
  from a b c d e show ?thesis
    unfolding added_def s'_def t_def by blast
qed

theorem C6_replication_witness:
  "probeProgress replication_example + 50 * 5 \<ge> 100 \<and>
   probesIn replication_example ''earth'' ''probe'' \<in> \<int> \<and>
   0 \<le> probesIn replication_example ''earth'' ''probe'' \<and>
   probesIn (processReplication replication_example ''earth'' 50 5) ''earth'' ''probe''
     - probesIn replication_example ''earth'' ''probe'' = 2 \<and>
   probeProgress replication_example + 50 * 5
     = probeProgress (processReplication replication_example ''earth'' 50 5) + 100 * 2 \<and>
   probesIn (processReplication replication_example ''earth'' 50 5) ''earth'' ''probe'' \<in> \<int> \<and>
   0 \<le> probesIn (processReplication replication_example ''earth'' 50 5) ''earth'' ''probe''"
proof -
  have p: "probeProgress replication_example = 30"
    by (simp add: probeProgress_def replication_example_def idle_state_def)
  have c: "probesIn replication_example ''earth'' ''probe'' = 3"
    by (simp add: probesIn_def countIn_def replication_example_def idle_state_def)
  have f: "\<lfloor>(280::real) / 100\<rfloor> = 2" by linarith
  show ?thesis
    using C6_replication_conserves_progress [of replication_example "''earth''" 50 5]
    by (simp add: p c f)
qed

section \<open>Composite upgrade factor: results\<close>

lemma foldl_mult_prod_list:
  fixes a :: real
  shows "foldl (\<lambda>prod val. prod * val) a vs = a * prod_list vs"
  by (induction vs arbitrary: a) (simp_all add: mult.assoc)

lemma prod_list_pos:
  fixes vs :: "real list"
  shows "(\<forall>v \<in> set vs. 0 < v) \<Longrightarrow> 0 < prod_list vs"
  by (induction vs) simp_all

lemma calculateTechTreeUpgradeFactor_spec:
  "calculateTechTreeUpgradeFactor (Some vs) alpha = spec_upgrade_factor vs alpha"
proof (cases "filter (\<lambda>v. v > 0) vs = []")
  case True
  then show ?thesis
    by (simp add: calculateTechTreeUpgradeFactor_def spec_upgrade_factor_def)
next
  case False
  then have ne: "vs \<noteq> []" by auto
  let ?ws = "filter (\<lambda>v. v > 0) vs"
  have "0 < prod_list ?ws" by (rule prod_list_pos) simp
  then have g: "0 < geometric_mean ?ws" by (simp add: geometric_mean_def)
  have "calculateTechTreeUpgradeFactor (Some vs) alpha = exp (alpha * ln (geometric_mean ?ws))"
    using False ne
    by (simp add: calculateTechTreeUpgradeFactor_def Let_def Math_pow_def Math_log_def
        Math_exp_def foldl_mult_prod_list geometric_mean_def)
  also have "\<dots> = geometric_mean ?ws powr alpha"
    using g by (simp add: powr_def)
  finally show ?thesis using False by (simp add: spec_upgrade_factor_def)
qed

lemma spec_upgrade_factor_pos: "0 < spec_upgrade_factor vs alpha"
proof (cases "filter (\<lambda>v. v > 0) vs = []")
  case True
  then show ?thesis by (simp add: spec_upgrade_factor_def)
next
  case False
  have "0 < prod_list (filter (\<lambda>v. v > 0) vs)" by (rule prod_list_pos) simp
  then have "0 < geometric_mean (filter (\<lambda>v. v > 0) vs)" by (simp add: geometric_mean_def)
  with False show ?thesis by (simp add: spec_upgrade_factor_def)
qed

lemma calculateUpgradeFactorFromCoefficients_pos:
  "0 < calculateUpgradeFactorFromCoefficients rules category sk alpha"
  by (simp add: calculateUpgradeFactorFromCoefficients_def Let_def
      calculateTechTreeUpgradeFactor_spec spec_upgrade_factor_pos split: option.splits)

text \<open>
  C7. For every list of coefficient-weighted skill values and every exponent alpha, the
  factor is the geometric mean of the positive values raised to alpha; it is 1 when the
  list is missing or empty, when no value is positive, and when the category has no
  coefficient table (no economic rules, no coefficient tables at all, or no table under
  the category's name).
\<close>

theorem C7_upgrade_factor_geometric_mean_power:
  "calculateTechTreeUpgradeFactor (Some vs) alpha
     = (if filter (\<lambda>v. v > 0) vs = [] then 1
        else geometric_mean (filter (\<lambda>v. v > 0) vs) powr alpha)
   \<and> calculateTechTreeUpgradeFactor None alpha = 1
   \<and> calculateTechTreeUpgradeFactor (Some []) alpha = 1
   \<and> ((\<forall>v \<in> set vs. v \<le> 0) \<longrightarrow> calculateTechTreeUpgradeFactor (Some vs) alpha = 1)
   \<and> calculateUpgradeFactorFromCoefficients None category sk a = 1
   \<and> (skill_coefficients rules = None \<longrightarrow>
        calculateUpgradeFactorFromCoefficients (Some rules) category sk a = 1)
   \<and> (skill_coefficients rules = Some table \<and> map_of table category = None \<longrightarrow>
        calculateUpgradeFactorFromCoefficients (Some rules) category sk a = 1)"
proof -
  have 1: "calculateTechTreeUpgradeFactor (Some vs) alpha
     = (if filter (\<lambda>v. v > 0) vs = [] then 1
        else geometric_mean (filter (\<lambda>v. v > 0) vs) powr alpha)"
    by (simp add: calculateTechTreeUpgradeFactor_spec spec_upgrade_factor_def)
  have 2: "(\<forall>v \<in> set vs. v \<le> 0) \<longrightarrow> calculateTechTreeUpgradeFactor (Some vs) alpha = 1"
  proof
    assume "\<forall>v \<in> set vs. v \<le> 0"
    then have "filter (\<lambda>v. v > 0) vs = []" by (auto simp: filter_empty_conv)
    with 1 show "calculateTechTreeUpgradeFactor (Some vs) alpha = 1" by simp
  qed
  have 3: "calculateTechTreeUpgradeFactor None alpha = 1"
    "calculateTechTreeUpgradeFactor (Some []) alpha = 1"
    by (simp_all add: calculateTechTreeUpgradeFactor_def)
  have 4: "calculateUpgradeFactorFromCoefficients None category sk a = 1"
    "skill_coefficients rules = None \<longrightarrow>
        calculateUpgradeFactorFromCoefficients (Some rules) category sk a = 1"
    "skill_coefficients rules = Some table \<and> map_of table category = None \<longrightarrow>
        calculateUpgradeFactorFromCoefficients (Some rules) category sk a = 1"
    by (simp_all add: calculateUpgradeFactorFromCoefficients_def)
  from 1 2 3 4 show ?thesis by blast
qed

theorem C7_upgrade_factor_witness:
  "calculateTechTreeUpgradeFactor (Some [2, - 3, 0]) 2 = 4
   \<and> (- 1 :: real) \<le> 0 \<and> (0 :: real) \<le> 0
   \<and> calculateTechTreeUpgradeFactor (Some [- 1, 0]) 2 = 1
   \<and> skill_coefficients salvage_rules = Some [(''salvage_efficiency'', [(''recycling'', 1)])]
   \<and> map_of [(''salvage_efficiency'', [(''recycling'', 1::real)])] ''mining_rate'' = None
   \<and> calculateUpgradeFactorFromCoefficients (Some salvage_rules) ''mining_rate''
        (skills_recycling 16) None = 1
   \<and> calculateUpgradeFactorFromCoefficients
        (Some (salvage_rules\<lparr> skill_coefficients := None \<rparr>)) ''mining_rate''
        (skills_recycling 16) None = 1"
proof -
  note t1 = C7_upgrade_factor_geometric_mean_power
      [of "[2, - 3, 0]" 2 "''mining_rate''" "skills_recycling 16" None salvage_rules
          "[(''salvage_efficiency'', [(''recycling'', 1)])]"]
  note t2 = C7_upgrade_factor_geometric_mean_power
      [of "[- 1, 0]" 2 "''mining_rate''" "skills_recycling 16" None
          "salvage_rules\<lparr> skill_coefficients := None \<rparr>" "[]"]
  have g: "geometric_mean [2] powr 2 = 4"
    by (simp add: geometric_mean_def)
  from t1 t2 g show ?thesis
    by (simp add: salvage_rules_def)
qed

section \<open>Salvage efficiency: results\<close>

lemma sixteen_powr: "(16::real) powr 0.75 = 8"
proof -
  have "(16::real) = 2 powr 4" by simp
  then have "(16::real) powr 0.75 = (2 powr 4) powr 0.75" by simp
  also have "\<dots> = 2 powr 3" by (simp add: powr_powr)
  also have "\<dots> = 8" by simp
  finally show ?thesis .
qed

lemma salvage_factor_16:
  "calculateUpgradeFactorFromCoefficients (Some salvage_rules) ''salvage_efficiency''
     (skills_recycling 16) None = 8"
  by (simp add: calculateUpgradeFactorFromCoefficients_def salvage_rules_def Let_def
      buildSkillValues_def skillValueOf_def skills_recycling_def
      calculateTechTreeUpgradeFactor_spec spec_upgrade_factor_def geometric_mean_def
      sixteen_powr)

text \<open>
  C8, as claimed: the salvage efficiency is strictly below 1.0 for all skill values. It is
  not: \<open>calculateSalvageEfficiency\<close> clamps \<open>0.75 * upgradeFactor\<close> with
  \<open>Math.min(1.0, ...)\<close>, and with a recycling skill of 16 under the rule set above the
  upgrade factor is \<open>16 ^ 0.75 = 8\<close>, so the efficiency is exactly 1.
\<close>

theorem C8_salvage_reaches_one:
  "\<not> calculateSalvageEfficiency (Some salvage_rules) (skills_recycling 16) < 1"
  by (simp add: calculateSalvageEfficiency_def salvage_factor_16)

text \<open>
  C8, amended: the salvage efficiency is \<open>min(1, 0.75 * upgradeFactor)\<close>: positive,
  never above 1.0, and equal to 1.0 exactly when the upgrade factor is at least 4/3. It is
  the 0.75 baseline whenever the salvage category is unconfigured, which the code meets in
  three ways: no economic rules were loaded, the rules carry no \<open>skill_coefficients\<close>,
  or the coefficient table has no \<open>salvage_efficiency\<close> entry.
\<close>

theorem C8_salvage_efficiency_clamped:
  "calculateSalvageEfficiency rules sk
     = min 1 (0.75 * calculateUpgradeFactorFromCoefficients rules ''salvage_efficiency'' sk None)
   \<and> 0 < calculateSalvageEfficiency rules sk
   \<and> calculateSalvageEfficiency rules sk \<le> 1
   \<and> (calculateSalvageEfficiency rules sk = 1)
       = (4 / 3 \<le> calculateUpgradeFactorFromCoefficients rules ''salvage_efficiency'' sk None)
   \<and> calculateSalvageEfficiency None sk = 0.75
   \<and> (skill_coefficients r = None \<longrightarrow> calculateSalvageEfficiency (Some r) sk = 0.75)
   \<and> (skill_coefficients r' = Some table \<and> map_of table ''salvage_efficiency'' = None
        \<longrightarrow> calculateSalvageEfficiency (Some r') sk = 0.75)"
proof -
  have p: "0 < calculateUpgradeFactorFromCoefficients rules ''salvage_efficiency'' sk None"
    by (rule calculateUpgradeFactorFromCoefficients_pos)
  have n: "calculateUpgradeFactorFromCoefficients None ''salvage_efficiency'' sk None = 1"
    by (simp add: calculateUpgradeFactorFromCoefficients_def)
  have 1: "calculateSalvageEfficiency rules sk
     = min 1 (0.75 * calculateUpgradeFactorFromCoefficients rules ''salvage_efficiency'' sk None)
   \<and> 0 < calculateSalvageEfficiency rules sk
   \<and> calculateSalvageEfficiency rules sk \<le> 1
   \<and> (calculateSalvageEfficiency rules sk = 1)
       = (4 / 3 \<le> calculateUpgradeFactorFromCoefficients rules ''salvage_efficiency'' sk None)
   \<and> calculateSalvageEfficiency None sk = 0.75"
    using p n by (auto simp: calculateSalvageEfficiency_def Let_def min_def)
  have 2: "skill_coefficients r = None \<longrightarrow> calculateSalvageEfficiency (Some r) sk = 0.75"
    by (simp add: calculateSalvageEfficiency_def calculateUpgradeFactorFromCoefficients_def)
  have 3: "skill_coefficients r' = Some table \<and> map_of table ''salvage_efficiency'' = None
        \<longrightarrow> calculateSalvageEfficiency (Some r') sk = 0.75"
    by (simp add: calculateSalvageEfficiency_def calculateUpgradeFactorFromCoefficients_def)
  from 1 2 3 show ?thesis by blast
qed

text \<open>Rules without a coefficient table, and rules whose table only configures the
  mining rate: the efficiency is 0.75 at a recycling skill of 16, where the configured
  rule set above gives 1.\<close>

theorem C8_salvage_efficiency_witness:
  "skill_coefficients (salvage_rules\<lparr> skill_coefficients := None \<rparr>) = None
   \<and> calculateSalvageEfficiency (Some (salvage_rules\<lparr> skill_coefficients := None \<rparr>))
        (skills_recycling 16) = 0.75
   \<and> skill_coefficients
        (salvage_rules\<lparr> skill_coefficients := Some [(''mining_rate'', [(''recycling'', 1)])] \<rparr>)
       = Some [(''mining_rate'', [(''recycling'', 1)])]
   \<and> map_of [(''mining_rate'', [(''recycling'', 1::real)])] ''salvage_efficiency'' = None
   \<and> calculateSalvageEfficiency
        (Some (salvage_rules\<lparr> skill_coefficients := Some [(''mining_rate'', [(''recycling'', 1)])] \<rparr>))
        (skills_recycling 16) = 0.75
   \<and> calculateSalvageEfficiency None (skills_recycling 16) = 0.75"
  using C8_salvage_efficiency_clamped
      [of None "skills_recycling 16" "salvage_rules\<lparr> skill_coefficients := None \<rparr>"
          "salvage_rules\<lparr> skill_coefficients := Some [(''mining_rate'', [(''recycling'', 1)])] \<rparr>"
          "[(''mining_rate'', [(''recycling'', 1)])]"]
  by (simp add: salvage_rules_def)

section \<open>Mining: results\<close>

text \<open>What the statements of \<open>processMining\<close> compute, were they to run. For a zone
  that is mined, the metal extracted is \<open>min(rate * throttle * deltaTime, remaining)\<close>,
  that amount leaves the zone's remaining metal, and with a metallicity other than 0 the
  slag produced is \<open>extracted / metallicity - extracted\<close>.\<close>

lemma mineZone_amounts:
  assumes "mineZone oz s dt sk b th z zone = (zone', a, sl)"
  shows "a = min (zoneMiningRate oz s b sk z * th * dt) (metal_remaining zone)"
    and "metal_remaining zone - metal_remaining zone' = a"
    and "slag_produced zone' = js_plus (jsnum_or0 (slag_produced zone)) sl"
    and "sl = js_minus (js_div a (getZoneMetallicity oz z)) (Num a)"
  using assms by (auto simp: mineZone_def Let_def)

lemma mineZone_slag:
  assumes "mineZone oz s dt sk b th z zone = (zone', a, sl)"
    and "getZoneMetallicity oz z \<noteq> 0"
  shows "sl = Num (a / getZoneMetallicity oz z - a)"
  using mineZone_amounts(4) [OF assms(1)] assms(2)
  by (simp add: js_div_def js_minus_def)

lemma mineZones_zone:
  assumes "map_of zs z = Some zone"
    and "\<not> isDysonZone oz z" and "\<not> depleted zone"
  shows "map_of (fst (mineZones oz s dt sk b th zs m sl)) z
           = Some (fst (mineZone oz s dt sk b th z zone))"
  using assms
proof (induction zs arbitrary: m sl)
  case Nil
  then show ?case by simp
next
  case (Cons p zs)
  obtain k v where p: "p = (k, v)" by (cases p)
  show ?case
  proof (cases "k = z")
    case True
    with Cons.prems p show ?thesis by (simp add: case_prod_beta)
  next
    case False
    with Cons.prems p have "map_of zs z = Some zone" by simp
    from Cons.IH [OF this Cons.prems(2) Cons.prems(3)] False p show ?thesis
      by (simp add: case_prod_beta)
  qed
qed

lemma zoneMiningRate_JSON_clone:
  "zoneMiningRate oz (JSON_clone s) b sk z = zoneMiningRate oz s b sk z"
  by (simp add: zoneMiningRate_def JSON_clone_def)

lemma mineZone_JSON_clone:
  "mineZone oz (JSON_clone s) dt sk b th z zone = mineZone oz s dt sk b th z zone"
  by (simp add: mineZone_def zoneMiningRate_JSON_clone)

lemma processMining_statements_zone:
  assumes "map_of (zones s) z = Some zone"
    and "\<not> isDysonZone oz z" and "\<not> depleted zone"
    and "getZoneMetallicity oz z \<noteq> 0"
    and "slag_produced zone = Num x"
  shows "\<exists>zone' metalExtracted slagProduced.
           map_of (zones (processMining_statements oz s dt sk b th)) z = Some zone'
         \<and> metalExtracted = min (zoneMiningRate oz s b sk z * th * dt) (metal_remaining zone)
         \<and> metal_remaining zone - metal_remaining zone' = metalExtracted
         \<and> slag_produced zone' = Num (x + slagProduced)
         \<and> metalExtracted / getZoneMetallicity oz z = metalExtracted + slagProduced"
proof -
  define zone0 where
    "zone0 = zone\<lparr> mass_remaining := JSON_number (mass_remaining zone),
                   slag_produced := JSON_number (slag_produced zone) \<rparr>"
  have z0: "map_of (zones (JSON_clone s)) z = Some zone0"
    using assms(1) by (simp add: JSON_clone_def map_of_map zone0_def)
  have d0: "\<not> depleted zone0" using assms(3) by (simp add: zone0_def)
  obtain zone' a sl where r: "mineZone oz s dt sk b th z zone0 = (zone', a, sl)"
    by (cases "mineZone oz s dt sk b th z zone0") auto
  have m: "map_of (zones (processMining_statements oz s dt sk b th)) z = Some zone'"
    using mineZones_zone [OF z0 assms(2) d0,
        of "JSON_clone s" dt sk b th "metal (JSON_clone s)" "slag (JSON_clone s)"] r
    by (simp add: processMining_statements_def Let_def mineZone_JSON_clone case_prod_beta)
  have 1: "a = min (zoneMiningRate oz s b sk z * th * dt) (metal_remaining zone)"
    and 2: "metal_remaining zone - metal_remaining zone' = a"
    using mineZone_amounts(1,2) [OF r] by (simp_all add: zone0_def)
  have 3: "sl = Num (a / getZoneMetallicity oz z - a)"
    by (rule mineZone_slag [OF r assms(4)])
  have 4: "slag_produced zone' = Num (x + (a / getZoneMetallicity oz z - a))"
    using mineZone_amounts(3) [OF r] 3 assms(5) by (simp add: zone0_def)
  from m 1 2 4 show ?thesis by auto
qed

text \<open>One day at full throttle on \<open>mining_example\<close>: the rate is 100 * 0.5 * 1 = 50
  kg/day, 50 kg of metal leave the zone, 200 kg of mass are removed and 150 kg of slag are
  recorded: 50 / (1/4) = 50 + 150.\<close>

lemma mining_example_zone:
  "mineZone (Some [earth_descriptor]) (JSON_clone mining_example) 1 unit_skills no_buildings 1
     ''earth'' earth_zone = (earth_zone_mined, 50, Num 150)"
  by (simp add: JSON_clone_def mineZone_def zoneMiningRate_def mining_example_def
      idle_state_def earth_descriptor_def earth_zone_def earth_zone_mined_def getZone_def
      getZoneMetallicity_def totalProbesOf_def calculateMiningRate_def
      calculateStructureMiningRate_def structureMiningOf_def no_buildings_def unit_skills_def
      getZoneMiningMultiplier_def BASE_MINING_RATE_def js_div_def js_minus_def Let_def)

lemma earth_is_mined: "\<not> isDysonZone (Some [earth_descriptor]) ''earth'' \<and> \<not> depleted earth_zone"
  by (simp add: isDysonZone_def getZone_def earth_descriptor_def earth_zone_def)

lemma mining_example_statements:
  "processMining_statements (Some [earth_descriptor]) mining_example 1 unit_skills no_buildings 1
     = mining_example\<lparr> zones := [(''earth'', earth_zone_mined)], metal := 1050, slag := Num 150 \<rparr>"
proof -
  have z: "zones (JSON_clone mining_example) = [(''earth'', earth_zone)]"
    and m: "metal (JSON_clone mining_example) = 1000"
    and sl: "slag (JSON_clone mining_example) = Num 0"
    and c: "JSON_clone mining_example = mining_example"
    by (simp_all add: JSON_clone_def mining_example_def idle_state_def earth_zone_def)
  show ?thesis
    using earth_is_mined
    by (simp add: processMining_statements_def Let_def z m sl mining_example_zone)
       (simp add: c)
qed

text \<open>With \<open>vesta\<close> in front, whose metallicity is 0: its 100 kg of metal are extracted
  and credited, its slag is infinite, and \<open>earth\<close> is mined as before.\<close>

lemma mining_example_vesta_statements:
  "processMining_statements (Some [earth_descriptor]) mining_example_vesta 1 unit_skills
       no_buildings 1
     = mining_example_vesta\<lparr>
         zones := [(''vesta'', vesta_zone_mined), (''earth'', earth_zone_mined)],
         metal := 1150, slag := PInf \<rparr>"
  by (simp add: processMining_statements_def JSON_clone_def mining_example_vesta_def
      mining_example_def idle_state_def vesta_zone_def vesta_zone_mined_def earth_zone_def
      earth_zone_mined_def mineZone_def zoneMiningRate_def earth_descriptor_def getZone_def
      isDysonZone_def getZoneMetallicity_def totalProbesOf_def calculateMiningRate_def
      calculateStructureMiningRate_def structureMiningOf_def no_buildings_def unit_skills_def
      getZoneMiningMultiplier_def BASE_MINING_RATE_def js_div_def js_minus_def Let_def)

text \<open>
  C4. The claim says that in every tick \<open>processMining\<close> extracts
  \<open>min(rate * throttle * deltaTime, remaining)\<close> from every mined zone and records the
  slag. The statements of the method compute exactly that
  (\<open>processMining_statements_zone\<close>), but the method as shipped never runs them: its body
  declares \<open>const profiler\<close> twice in one scope, so loading the file fails with a
  SyntaxError, for every state and in particular for the scenario of the specification.
\<close>

theorem C4_processMining_does_not_load:
  "processMining oz s dt sk b th = Inl (SyntaxError_already_declared ''profiler'')
   \<and> processMining (Some [earth_descriptor]) mining_example 1 unit_skills no_buildings 1
       \<noteq> Inr (mining_example\<lparr> zones := [(''earth'', earth_zone_mined)], metal := 1050,
                slag := Num 150 \<rparr>)"
  by (simp add: processMining_def processMining_declarations_def)

section \<open>Dyson construction: results\<close>

lemma calculateBuildingRate_nonneg:
  "0 \<le> robotic sk \<Longrightarrow> 0 \<le> production sk \<Longrightarrow> 0 \<le> calculateBuildingRate n sk"
  by (simp add: calculateBuildingRate_def BASE_BUILDING_RATE_def)

lemma processDysonConstruction_metal:
  "metal s - metal (processDysonConstruction s dt sk th)
     = 2 * (mass (dyson_sphere (processDysonConstruction s dt sk th)) - mass (dyson_sphere s))"
  by (simp add: processDysonConstruction_def Let_def METAL_TO_DYSON_RATIO_def)

lemma processDysonConstruction_metal_le:
  "0 \<le> metal s \<Longrightarrow> metal s - metal (processDysonConstruction s dt sk th) \<le> metal s"
  by (simp add: processDysonConstruction_def Let_def)

lemma processDysonConstruction_mass_mono:
  assumes "0 \<le> dt" and "0 \<le> th" and "0 \<le> robotic sk" and "0 \<le> production sk"
    and "0 \<le> dyson_construction sk" and "0 \<le> metal s"
  shows "mass (dyson_sphere s) \<le> mass (dyson_sphere (processDysonConstruction s dt sk th))"
  using assms calculateBuildingRate_nonneg [of sk]
  by (simp add: processDysonConstruction_def Let_def METAL_TO_DYSON_RATIO_def)

lemma processDysonConstruction_target:
  "dysonTarget (processDysonConstruction s dt sk th) = dysonTarget s"
  by (simp add: processDysonConstruction_def Let_def dysonTarget_def)

lemma processDysonConstruction_progress:
  assumes "dysonZoneProbes s \<noteq> 0 \<or>
           progress (dyson_sphere s) = min 1 (mass (dyson_sphere s) / dysonTarget s)"
  shows "progress (dyson_sphere (processDysonConstruction s dt sk th))
           = min 1 (mass (dyson_sphere (processDysonConstruction s dt sk th)) / dysonTarget s)"
  using assms
  by (auto simp: processDysonConstruction_def Let_def dysonZoneProbes_def dysonTarget_def)

lemma idle_state_progress:
  "progress (dyson_sphere idle_state)
     = min 1 (mass (dyson_sphere idle_state) / dysonTarget idle_state)"
  by (simp add: idle_state_def dysonTarget_def)

text \<open>
  C9. Dyson construction never decreases the Dyson mass; the metal taken from the pool
  is exactly twice the mass added and never more than the pool holds; and the stored
  progress is \<open>min(1, mass / target_mass)\<close>, so it stays at 1.0 when the mass passes the
  target. The quantities are read in their domains: a time step, a throttle, the three
  skills the rate multiplies and the metal pool are not negative. The progress is written
  whenever the Dyson zone holds probes; with no probe there the function returns before
  touching the sphere, so the stored progress is the one of the incoming state, which is
  \<open>min(1, mass / target_mass)\<close> for every state this function or
  \<open>createInitialGameState\<close> produced.
\<close>

theorem C9_dyson_construction:
  assumes "0 \<le> dt" and "0 \<le> th"
    and "0 \<le> robotic sk" and "0 \<le> production sk" and "0 \<le> dyson_construction sk"
    and "0 \<le> metal s"
    and "dysonZoneProbes s \<noteq> 0 \<or>
         progress (dyson_sphere s) = min 1 (mass (dyson_sphere s) / dysonTarget s)"
  shows "mass (dyson_sphere s) \<le> mass (dyson_sphere (processDysonConstruction s dt sk th))
       \<and> metal s - metal (processDysonConstruction s dt sk th)
           = 2 * (mass (dyson_sphere (processDysonConstruction s dt sk th)) - mass (dyson_sphere s))
       \<and> metal s - metal (processDysonConstruction s dt sk th) \<le> metal s
       \<and> progress (dyson_sphere (processDysonConstruction s dt sk th))
           = min 1 (mass (dyson_sphere (processDysonConstruction s dt sk th))
                    / dysonTarget (processDysonConstruction s dt sk th))
       \<and> progress (dyson_sphere (processDysonConstruction s dt sk th)) \<le> 1"
proof -
  have "progress (dyson_sphere (processDysonConstruction s dt sk th)) \<le> 1"
    using processDysonConstruction_progress [OF assms(7), of dt sk th] by simp
  then show ?thesis
    using processDysonConstruction_mass_mono [OF assms(1-6)]
      processDysonConstruction_metal [of s dt sk th]
      processDysonConstruction_metal_le [OF assms(6), of dt sk th]
      processDysonConstruction_progress [OF assms(7), of dt sk th]
    by (simp add: processDysonConstruction_target)
qed

text \<open>One day at full throttle on \<open>dyson_example\<close>: the rate of 1000 kg/day asks for
  2000 kg of metal, the 500 kg available are taken, 250 kg are added to the 90 kg of the
  sphere, and the progress is clamped to 1 although the mass, 340 kg, exceeds the target
  of 100 kg.\<close>

theorem C9_dyson_construction_witness:
  "(0::real) \<le> 1 \<and> 0 \<le> robotic unit_skills \<and> 0 \<le> production unit_skills
   \<and> 0 \<le> dyson_construction unit_skills \<and> 0 \<le> metal dyson_example
   \<and> dysonZoneProbes dyson_example = 10
   \<and> mass (dyson_sphere dyson_example) = 90
   \<and> mass (dyson_sphere (processDysonConstruction dyson_example 1 unit_skills 1)) = 340
   \<and> metal dyson_example - metal (processDysonConstruction dyson_example 1 unit_skills 1) = 500
   \<and> progress (dyson_sphere (processDysonConstruction dyson_example 1 unit_skills 1)) = 1"
proof -
  have h: "(0::real) \<le> 1" "0 \<le> robotic unit_skills" "0 \<le> production unit_skills"
    "0 \<le> dyson_construction unit_skills" "0 \<le> metal dyson_example"
    by (simp_all add: unit_skills_def dyson_example_def idle_state_def)
  have n: "dysonZoneProbes dyson_example = 10"
    by (simp add: dysonZoneProbes_def dyson_example_def idle_state_def totalProbesOf_def)
  then have g: "dysonZoneProbes dyson_example \<noteq> 0 \<or>
      progress (dyson_sphere dyson_example)
        = min 1 (mass (dyson_sphere dyson_example) / dysonTarget dyson_example)"
    by simp
  have m: "mass (dyson_sphere (processDysonConstruction dyson_example 1 unit_skills 1)) = 340"
    by (simp add: processDysonConstruction_def dyson_example_def idle_state_def
        totalProbesOf_def unit_skills_def calculateBuildingRate_def BASE_BUILDING_RATE_def
        METAL_TO_DYSON_RATIO_def Let_def)
  have "dysonTarget dyson_example = 100"
    by (simp add: dysonTarget_def dyson_example_def idle_state_def)
  then have t: "dysonTarget (processDysonConstruction dyson_example 1 unit_skills 1) = 100"
    by (simp only: processDysonConstruction_target)
  have d: "mass (dyson_sphere dyson_example) = 90"
    by (simp add: dyson_example_def idle_state_def)
  show ?thesis
    using C9_dyson_construction [OF h(1) h(1) h(2) h(3) h(4) h(5) g] h n
    by (simp add: m t d)
qed

section \<open>One-time transfers of engine\_v2: results\<close>

lemma totalProbesOf_sum: "totalProbesOf al = sum_list (map snd al)"
proof -
  have "foldl (\<lambda>sum count. sum + num_or (Some count) 0) a xs = a + sum_list xs" for a xs
    by (induction xs arbitrary: a) (simp_all add: algebra_simps)
  then show ?thesis by (simp add: totalProbesOf_def)
qed

lemma totalProbesOf_update:
  "totalProbesOf (AList.update k v al) = totalProbesOf al - num_or (map_of al k) 0 + v"
  by (induction al) (auto simp: totalProbesOf_sum)

lemma sumProbes_update:
  "sumProbes (AList.update z zp pbz)
     = sumProbes pbz - totalProbesOf (obj_or (map_of pbz z)) + totalProbesOf zp"
  by (induction pbz) (auto simp: totalProbesOf_sum sumProbes_def)

lemma countIn_update_same:
  "countIn (AList.update z (AList.update p v zp) pbz) z p = v"
  by (simp add: countIn_def update_conv')

lemma countIn_update_other:
  "z' \<noteq> z \<or> p' \<noteq> p \<Longrightarrow>
   countIn (AList.update z (AList.update p v (obj_or (map_of pbz z))) pbz) z' p' = countIn pbz z' p'"
  by (auto simp: countIn_def update_conv')

lemma sumProbes_update_count:
  "sumProbes (AList.update z (AList.update p v (obj_or (map_of pbz z))) pbz)
     = sumProbes pbz - countIn pbz z p + v"
  by (simp add: sumProbes_update totalProbesOf_update countIn_def)

lemma removeFromSource_alt:
  "removeFromSource pbz z p c =
     (if countIn pbz z p \<noteq> 0
      then AList.update z (AList.update p (max 0 (countIn pbz z p - c)) (obj_or (map_of pbz z))) pbz
      else pbz)"
  by (auto simp: removeFromSource_def countIn_def split: option.splits)

lemma addToDestination_alt:
  "addToDestination pbz z p c =
     AList.update z (AList.update p (countIn pbz z p + c) (obj_or (map_of pbz z))) pbz"
  by (simp add: addToDestination_def countIn_def Let_def)

lemma countIn_removeFromSource_same:
  "countIn (removeFromSource pbz z p c) z p
     = (if countIn pbz z p \<noteq> 0 then max 0 (countIn pbz z p - c) else 0)"
  by (simp add: removeFromSource_alt countIn_update_same)

lemma countIn_removeFromSource_other:
  "z' \<noteq> z \<or> p' \<noteq> p \<Longrightarrow> countIn (removeFromSource pbz z p c) z' p' = countIn pbz z' p'"
  by (simp add: removeFromSource_alt countIn_update_other)

lemma sumProbes_removeFromSource:
  "sumProbes (removeFromSource pbz z p c)
     = sumProbes pbz - countIn pbz z p
       + (if countIn pbz z p \<noteq> 0 then max 0 (countIn pbz z p - c) else 0)"
  by (simp add: removeFromSource_alt sumProbes_update_count)

lemma countIn_addToDestination_same:
  "countIn (addToDestination pbz z p c) z p = countIn pbz z p + c"
  by (simp add: addToDestination_alt countIn_update_same)

lemma countIn_addToDestination_other:
  "z' \<noteq> z \<or> p' \<noteq> p \<Longrightarrow> countIn (addToDestination pbz z p c) z' p' = countIn pbz z' p'"
  by (simp add: addToDestination_alt countIn_update_other)

lemma sumProbes_addToDestination:
  "sumProbes (addToDestination pbz z p c) = sumProbes pbz + c"
  by (simp add: addToDestination_alt sumProbes_update_count)

lemma probes_completeTransfer:
  "probes_by_zone (completeTransfer s t) =
     addToDestination
       (removeFromSource (probes_by_zone s) (from_zone t) (str_or (probe_type t) ''probe'')
          (num_or (probe_count t) 0))
       (to_zone t) (str_or (probe_type t) ''probe'') (num_or (probe_count t) 0)"
  by (simp add: completeTransfer_def Let_def)

text \<open>The count of the source after the debit block, for a count \<open>n\<close> before it.\<close>

lemma completeTransfer_destination:
  "probesIn (completeTransfer s t) (to_zone t) (str_or (probe_type t) ''probe'')
     = (if from_zone t = to_zone t
        then (if probesIn s (to_zone t) (str_or (probe_type t) ''probe'') \<noteq> 0
              then max 0 (probesIn s (to_zone t) (str_or (probe_type t) ''probe'')
                          - num_or (probe_count t) 0)
              else 0)
        else probesIn s (to_zone t) (str_or (probe_type t) ''probe''))
       + num_or (probe_count t) 0"
  by (simp add: probesIn_def probes_completeTransfer countIn_addToDestination_same
      countIn_removeFromSource_same countIn_removeFromSource_other)

lemma completeTransfer_source:
  "from_zone t \<noteq> to_zone t \<Longrightarrow>
   probesIn (completeTransfer s t) (from_zone t) (str_or (probe_type t) ''probe'')
     = (if probesIn s (from_zone t) (str_or (probe_type t) ''probe'') \<noteq> 0
        then max 0 (probesIn s (from_zone t) (str_or (probe_type t) ''probe'')
                    - num_or (probe_count t) 0)
        else 0)"
  by (simp add: probesIn_def probes_completeTransfer countIn_addToDestination_other
      countIn_removeFromSource_same)

lemma completeTransfer_elsewhere:
  "(z \<noteq> from_zone t \<or> q \<noteq> str_or (probe_type t) ''probe'') \<Longrightarrow>
   (z \<noteq> to_zone t \<or> q \<noteq> str_or (probe_type t) ''probe'') \<Longrightarrow>
   probesIn (completeTransfer s t) z q = probesIn s z q"
  by (simp add: probesIn_def probes_completeTransfer countIn_addToDestination_other
      countIn_removeFromSource_other)

lemma completeTransfer_allProbes:
  "allProbes (completeTransfer s t)
     = allProbes s - probesIn s (from_zone t) (str_or (probe_type t) ''probe'')
       + (if probesIn s (from_zone t) (str_or (probe_type t) ''probe'') \<noteq> 0
          then max 0 (probesIn s (from_zone t) (str_or (probe_type t) ''probe'')
                      - num_or (probe_count t) 0)
          else 0)
       + num_or (probe_count t) 0"
  by (simp add: allProbes_def probesIn_def probes_completeTransfer sumProbes_addToDestination
      sumProbes_removeFromSource)

lemma completeTransfer_nonneg:
  assumes "0 \<le> num_or (probe_count t) 0" and "\<forall>z q. 0 \<le> probesIn s z q"
  shows "0 \<le> probesIn (completeTransfer s t) z q"
proof (cases "z = to_zone t \<and> q = str_or (probe_type t) ''probe''")
  case True
  then show ?thesis
    using assms completeTransfer_destination [of s t]
    by (auto simp: max_def add_nonneg_nonneg)
next
  case False
  note nt = this
  show ?thesis
  proof (cases "z = from_zone t \<and> q = str_or (probe_type t) ''probe''")
    case True
    with nt have "from_zone t \<noteq> to_zone t" by auto
    from completeTransfer_source [OF this, of s] True show ?thesis
      by (auto simp: max_def)
  next
    case False
    with nt assms(2) show ?thesis
      by (simp add: completeTransfer_elsewhere)
  qed
qed

lemma completeTransfer_fields:
  "time (completeTransfer s t) = time s"
  "active_transfers (completeTransfer s t) = active_transfers s"
  "metal (completeTransfer s t) = metal s"
  by (simp_all add: completeTransfer_def Let_def)

lemma foldl_completeTransfer_time:
  "time (foldl completeTransfer s ts) = time s"
  by (induction ts arbitrary: s) (simp_all add: completeTransfer_fields)

lemma processTransfersLoop_filter:
  "processTransfersLoop ts s
     = (filter (\<lambda>t. \<not> arrived s t) ts, foldl completeTransfer s (filter (arrived s) ts))"
proof (induction ts arbitrary: s)
  case Nil
  then show ?case by simp
next
  case (Cons t ts)
  show ?case
    by (auto simp: Cons.IH arrived_def completeTransfer_fields)
qed

lemma processTransfers_filter:
  "processTransfers s dt
     = (foldl completeTransfer s (filter (arrived s) (active_transfers s)))
         \<lparr> active_transfers := filter (\<lambda>t. \<not> arrived s t) (active_transfers s) \<rparr>"
  by (simp add: processTransfers_def processTransfersLoop_filter)

text \<open>
  C3, as claimed: the probes of a one-time transfer are debited from the source zone when
  the transfer is created. In engine\_v2 they are not: an accepted request for three of the
  five probes at \<open>earth\<close> leaves five probes there; \<open>GameEngine.createTransfer\<close> only
  appends the transfer.
\<close>

theorem C3_no_debit_at_creation:
  "snd (GameEngine_createTransfer transfer_example ''t1'' 1 10 send_three) = Success three_to_mars
   \<and> probesIn transfer_example ''earth'' ''probe'' = 5
   \<and> probesIn (fst (GameEngine_createTransfer transfer_example ''t1'' 1 10 send_three))
        ''earth'' ''probe'' = 5
   \<and> probesIn (fst (GameEngine_createTransfer transfer_example ''t1'' 1 10 send_three))
        ''earth'' ''probe'' \<noteq> probesIn transfer_example ''earth'' ''probe'' - 3"
  by (simp add: GameEngine_createTransfer_def createTransfer_v2_def addTransfer_def
      transfer_example_def idle_state_def send_three_def three_to_mars_def probesIn_def
      countIn_def Let_def)

text \<open>
  C3, amended. A request is rejected, with the state untouched, when the source holds
  fewer probes of the type than requested. An accepted request appends a travelling
  transfer to the active list and changes nothing else: no probe is debited at creation.
  \<open>processTransfers\<close> completes every travelling transfer whose arrival time has come, in
  list order, and removes exactly those from the active list; a completion credits the
  destination with the probe count and, in the same step, lowers the source's count by
  it, not below zero (a source count of 0 or a missing entry is left alone).
\<close>

theorem C3_one_time_transfer_v2:
  "(countIn (probes_by_zone s) (act_from_zone a)
        (case act_probe_type a of None \<Rightarrow> ''probe'' | Some p \<Rightarrow> p) < act_probe_count a
      \<longrightarrow> GameEngine_createTransfer s i dv tt a = (s, Failure ''Insufficient probes''))
   \<and> (\<not> countIn (probes_by_zone s) (act_from_zone a)
          (case act_probe_type a of None \<Rightarrow> ''probe'' | Some p \<Rightarrow> p) < act_probe_count a
      \<longrightarrow> (\<exists>tr. GameEngine_createTransfer s i dv tt a
                  = (s\<lparr> active_transfers := active_transfers s @ [tr] \<rparr>, Success tr)
              \<and> status tr = Traveling \<and> arrival_time tr = time s + tt
              \<and> from_zone tr = act_from_zone a \<and> to_zone tr = act_to_zone a
              \<and> probe_count tr = Some (act_probe_count a)))
   \<and> probes_by_zone (fst (GameEngine_createTransfer s i dv tt a)) = probes_by_zone s
   \<and> processTransfers s dt
        = (foldl completeTransfer s (filter (arrived s) (active_transfers s)))
            \<lparr> active_transfers := filter (\<lambda>t. \<not> arrived s t) (active_transfers s) \<rparr>
   \<and> (\<forall>t \<in> set (active_transfers (processTransfers s dt)). \<not> arrived s t)
   \<and> probesIn (completeTransfer s t) (to_zone t) (str_or (probe_type t) ''probe'')
        = (if from_zone t = to_zone t
           then (if probesIn s (to_zone t) (str_or (probe_type t) ''probe'') \<noteq> 0
                 then max 0 (probesIn s (to_zone t) (str_or (probe_type t) ''probe'')
                             - num_or (probe_count t) 0)
                 else 0)
           else probesIn s (to_zone t) (str_or (probe_type t) ''probe''))
          + num_or (probe_count t) 0
   \<and> (from_zone t \<noteq> to_zone t \<longrightarrow>
        probesIn (completeTransfer s t) (from_zone t) (str_or (probe_type t) ''probe'')
          = (if probesIn s (from_zone t) (str_or (probe_type t) ''probe'') \<noteq> 0
             then max 0 (probesIn s (from_zone t) (str_or (probe_type t) ''probe'')
                         - num_or (probe_count t) 0)
             else 0))"
proof -
  have rej: "countIn (probes_by_zone s) (act_from_zone a)
        (case act_probe_type a of None \<Rightarrow> ''probe'' | Some p \<Rightarrow> p) < act_probe_count a
      \<longrightarrow> GameEngine_createTransfer s i dv tt a = (s, Failure ''Insufficient probes'')"
    by (simp add: GameEngine_createTransfer_def countIn_def Let_def)
  have acc: "\<not> countIn (probes_by_zone s) (act_from_zone a)
          (case act_probe_type a of None \<Rightarrow> ''probe'' | Some p \<Rightarrow> p) < act_probe_count a
      \<longrightarrow> (\<exists>tr. GameEngine_createTransfer s i dv tt a
                  = (s\<lparr> active_transfers := active_transfers s @ [tr] \<rparr>, Success tr)
              \<and> status tr = Traveling \<and> arrival_time tr = time s + tt
              \<and> from_zone tr = act_from_zone a \<and> to_zone tr = act_to_zone a
              \<and> probe_count tr = Some (act_probe_count a))"
    by (simp add: GameEngine_createTransfer_def countIn_def Let_def addTransfer_def
        createTransfer_v2_def)
  have same: "probes_by_zone (fst (GameEngine_createTransfer s i dv tt a)) = probes_by_zone s"
    by (simp add: GameEngine_createTransfer_def Let_def addTransfer_def)
  have gone: "\<forall>t \<in> set (active_transfers (processTransfers s dt)). \<not> arrived s t"
    by (simp add: processTransfers_filter)
  from rej acc same gone processTransfers_filter [of s dt]
    completeTransfer_destination [of s t] completeTransfer_source [of t s]
  show ?thesis by blast
qed

text \<open>The request for seven probes is rejected and the request for three is accepted
  against the five probes at \<open>earth\<close>; ten days later the transfer arrives, \<open>earth\<close> is
  left with two probes, \<open>mars\<close> has three, and the active list is empty.\<close>

theorem C3_one_time_transfer_v2_witness:
  "countIn (probes_by_zone transfer_example) ''earth'' ''probe'' = 5
   \<and> GameEngine_createTransfer transfer_example ''t1'' 1 10 send_seven
        = (transfer_example, Failure ''Insufficient probes'')
   \<and> GameEngine_createTransfer transfer_example ''t1'' 1 10 send_three
        = (addTransfer transfer_example three_to_mars, Success three_to_mars)
   \<and> arrived three_due three_to_mars
   \<and> active_transfers (processTransfers three_due 1) = []
   \<and> probesIn (processTransfers three_due 1) ''earth'' ''probe'' = 2
   \<and> probesIn (processTransfers three_due 1) ''mars'' ''probe'' = 3"
proof -
  have c5: "countIn (probes_by_zone transfer_example) ''earth'' ''probe'' = 5"
    by (simp add: countIn_def transfer_example_def idle_state_def)
  have r7: "GameEngine_createTransfer transfer_example ''t1'' 1 10 send_seven
        = (transfer_example, Failure ''Insufficient probes'')"
    using C3_one_time_transfer_v2 [of transfer_example send_seven "''t1''" 1 10]
    by (simp add: c5 send_seven_def)
  have r3: "GameEngine_createTransfer transfer_example ''t1'' 1 10 send_three
        = (addTransfer transfer_example three_to_mars, Success three_to_mars)"
    by (simp add: GameEngine_createTransfer_def createTransfer_v2_def addTransfer_def
      transfer_example_def idle_state_def send_three_def three_to_mars_def Let_def)
  have at: "active_transfers three_due = [three_to_mars]" and tm: "time three_due = 10"
    by (simp_all add: three_due_def addTransfer_def transfer_example_def idle_state_def)
  have ar: "arrived three_due three_to_mars"
    by (simp add: arrived_def tm three_to_mars_def)
  have ft: "from_zone three_to_mars = ''earth''" "to_zone three_to_mars = ''mars''"
    "str_or (probe_type three_to_mars) ''probe'' = ''probe''"
    "num_or (probe_count three_to_mars) 0 = 3"
    by (simp_all add: three_to_mars_def)
  have p0: "probesIn three_due ''earth'' ''probe'' = 5" "probesIn three_due ''mars'' ''probe'' = 0"
    by (simp_all add: probesIn_def countIn_def three_due_def addTransfer_def
        transfer_example_def idle_state_def)
  note th = C3_one_time_transfer_v2 [of three_due send_three "''t1''" 1 10 1 three_to_mars]
  from th have pt: "processTransfers three_due 1
      = (completeTransfer three_due three_to_mars)\<lparr> active_transfers := [] \<rparr>"
    by (simp add: at ar)
  from th have d: "probesIn (completeTransfer three_due three_to_mars) ''mars'' ''probe'' = 3"
    by (simp add: ft p0)
  from th have e: "probesIn (completeTransfer three_due three_to_mars) ''earth'' ''probe'' = 2"
    by (simp add: ft p0)
  have "probesIn (processTransfers three_due 1) ''earth'' ''probe'' = 2"
    "probesIn (processTransfers three_due 1) ''mars'' ''probe'' = 3"
    "active_transfers (processTransfers three_due 1) = []"
    using d e by (simp_all add: pt probesIn_def)
  with c5 r7 r3 ar show ?thesis by blast
qed

text \<open>
  C10. Completing a one-time transfer of engine\_v2, for a probe count that is not
  negative and probe counts that are not negative: the destination is credited with the
  full probe count; the source's count drops to \<open>max(0, n - probe_count)\<close>, so by at most
  the probe count and never below zero; no count of any zone becomes negative; and the
  total over all zones grows by \<open>probe_count - min(n, probe_count)\<close>, so it increases
  exactly when the source holds fewer probes than the transfer carries, and is unchanged
  otherwise.
\<close>

theorem C10_complete_transfer_probe_counts:
  assumes p: "p = str_or (probe_type t) ''probe''"
    and c: "c = num_or (probe_count t) 0"
    and n: "n = probesIn s (from_zone t) p"
    and c0: "0 \<le> c"
    and s0: "\<forall>z q. 0 \<le> probesIn s z q"
  shows "probesIn (completeTransfer s t) (to_zone t) p
           = (if from_zone t = to_zone t then max 0 (n - c) else probesIn s (to_zone t) p) + c
       \<and> (from_zone t \<noteq> to_zone t \<longrightarrow>
            probesIn (completeTransfer s t) (from_zone t) p = max 0 (n - c)
            \<and> n - probesIn (completeTransfer s t) (from_zone t) p \<le> c
            \<and> 0 \<le> probesIn (completeTransfer s t) (from_zone t) p)
       \<and> (\<forall>z q. 0 \<le> probesIn (completeTransfer s t) z q)
       \<and> allProbes (completeTransfer s t) = allProbes s + (c - min n c)
       \<and> (n < c \<longrightarrow> allProbes s < allProbes (completeTransfer s t))
       \<and> (c \<le> n \<longrightarrow> allProbes (completeTransfer s t) = allProbes s)"
proof -
  from s0 n have n0: "0 \<le> n" by simp
  have deb: "(if n \<noteq> 0 then max 0 (n - c) else 0) = max 0 (n - c)"
    using n0 c0 by (auto simp: max_def)
  have 1: "probesIn (completeTransfer s t) (to_zone t) p
           = (if from_zone t = to_zone t then max 0 (n - c) else probesIn s (to_zone t) p) + c"
    using completeTransfer_destination [of s t] deb by (auto simp: p c n)
  have 2: "from_zone t \<noteq> to_zone t \<longrightarrow>
            probesIn (completeTransfer s t) (from_zone t) p = max 0 (n - c)"
    using completeTransfer_source [of t s] deb by (auto simp: p c n)
  have 3: "\<forall>z q. 0 \<le> probesIn (completeTransfer s t) z q"
    using completeTransfer_nonneg [of t s] c0 s0 by (simp add: c)
  have 4: "allProbes (completeTransfer s t) = allProbes s + (c - min n c)"
    using completeTransfer_allProbes [of s t] deb n0 c0
    by (auto simp: p c n max_def min_def)
  from 1 2 3 4 n0 c0 show ?thesis
    by (auto simp: max_def min_def)
qed

text \<open>Two probes at \<open>earth\<close>, three at \<open>mars\<close>, and a transfer of three probes from
  \<open>earth\<close> arriving: \<open>earth\<close> drops to zero, \<open>mars\<close> receives three, and the total goes
  from five to six.\<close>

theorem C10_complete_transfer_witness:
  "''probe'' = str_or (probe_type three_to_mars) ''probe''
   \<and> (3::real) = num_or (probe_count three_to_mars) 0
   \<and> (2::real) = probesIn short_source (from_zone three_to_mars) ''probe''
   \<and> (0::real) \<le> 3
   \<and> (\<forall>z q. 0 \<le> probesIn short_source z q)
   \<and> probesIn (completeTransfer short_source three_to_mars) ''mars'' ''probe'' = 6
   \<and> probesIn (completeTransfer short_source three_to_mars) ''earth'' ''probe'' = 0
   \<and> allProbes short_source = 5
   \<and> allProbes (completeTransfer short_source three_to_mars) = 6"
proof -
  have p: "''probe'' = str_or (probe_type three_to_mars) ''probe''"
    and c: "(3::real) = num_or (probe_count three_to_mars) 0"
    and n: "(2::real) = probesIn short_source (from_zone three_to_mars) ''probe''"
    by (simp_all add: three_to_mars_def probesIn_def countIn_def short_source_def idle_state_def)
  have s0: "\<forall>z q. 0 \<le> probesIn short_source z q"
    by (simp add: probesIn_def countIn_def short_source_def idle_state_def)
  have m: "probesIn short_source ''mars'' ''probe'' = 3"
    by (simp add: probesIn_def countIn_def short_source_def idle_state_def)
  have a: "allProbes short_source = 5"
    by (simp add: allProbes_def sumProbes_def totalProbesOf_def short_source_def idle_state_def)
  have z: "from_zone three_to_mars = ''earth''" "to_zone three_to_mars = ''mars''"
    by (simp_all add: three_to_mars_def)
  from C10_complete_transfer_probe_counts [OF p c n _ s0]
  have "probesIn (completeTransfer short_source three_to_mars) ''mars'' ''probe'' = 6
      \<and> probesIn (completeTransfer short_source three_to_mars) ''earth'' ''probe'' = 0
      \<and> allProbes (completeTransfer short_source three_to_mars) = 6"
    by (simp add: z m a)
  with p c n s0 a show ?thesis by simp
qed

section \<open>Creating a metal transfer without a mass driver: results\<close>

text \<open>
  C5. Creating a metal transfer whose source zone has zero mass drivers (no entry, or a
  count of 0) fails: \<open>createTransfer\<close> returns the failure object
  \<open>{success: false, transfer: null, error: ...}\<close>, whatever the mode, the amount and the
  other arguments, and leaves the game state and the transfer system as they were. The
  error is the mass-driver one when both zones are known, and the zone one otherwise.
\<close>

theorem C5_metal_transfer_without_mass_driver_fails:
  assumes "massDriverCountOf state fromZoneId = 0"
  shows "createTransfer ts om newId state fromZoneId toZoneId ''metal'' probeType resourceCount
             skillsArg ttype ratePercentage
           = (\<lparr> cr_success = False, cr_transfer = None,
                cr_error = Some (if getZone (orbitalZones om) fromZoneId = None
                                 then ZoneNotFound fromZoneId
                                 else if getZone (orbitalZones om) toZoneId = None
                                 then ZoneNotFound toZoneId
                                 else MassDriverRequired) \<rparr>,
              state, ts)"
  using assms by (simp add: createTransfer_def hasMassDriver_def failed_def Let_def)

text \<open>A one-time transfer of 1000 kg of metal from \<open>earth\<close>, which has no structure, to
  \<open>mars\<close>.\<close>

theorem C5_metal_transfer_witness:
  "massDriverCountOf no_drivers ''earth'' = 0
   \<and> createTransfer new_TransferSystem two_zones ''t1'' no_drivers ''earth'' ''mars'' ''metal''
        ''probe'' 1000 None ''one-time'' 0
      = (\<lparr> cr_success = False, cr_transfer = None, cr_error = Some MassDriverRequired \<rparr>,
         no_drivers, new_TransferSystem)"
proof -
  have h: "massDriverCountOf no_drivers ''earth'' = 0"
    by (simp add: massDriverCountOf_def no_drivers_def)
  have z: "getZone (orbitalZones two_zones) ''earth'' \<noteq> None"
    "getZone (orbitalZones two_zones) ''mars'' \<noteq> None"
    by (simp_all add: getZone_def two_zones_def earth_descriptor_def mars_descriptor_def)
  from C5_metal_transfer_without_mass_driver_fails [OF h, of new_TransferSystem two_zones
      "''t1''" "''mars''" "''probe''" 1000 None "''one-time''" 0] h z
  show ?thesis by simp
qed

section \<open>Snapshots and the accumulators of continuous transfers: results\<close>



lemma same_sends_refl: "same_sends ts ts"
  by (simp add: same_sends_def)

























end
